theory Spec2Isabelle
  imports Complex_Main
begin

section \<open>Python values and errors\<close>

text \<open>
  Exceptions that the analysis code can raise. Inside \<open>analyze_pair_fast\<close> every one of
  them is caught by the \<open>except Exception\<close> clause that closes the function body.
\<close>

datatype py_error = TypeError | IndexError | ZeroDivisionError

definition ebind :: "py_error + 'a \<Rightarrow> ('a \<Rightarrow> py_error + 'b) \<Rightarrow> py_error + 'b" where
  "ebind m f = (case m of Inl e \<Rightarrow> Inl e | Inr v \<Rightarrow> f v)"

section \<open>The cycle counter\<close>

text \<open>
  A Boolean Polars Series is a list of nullable booleans. \<open>to_numpy()\<close> turns a null into
  the Python object \<open>None\<close>, which is falsy when the loop tests it.
\<close>

type_synonym bool_series = "bool option list"

definition truthy :: "bool option \<Rightarrow> bool" where
  "truthy v = (v = Some True)"

text \<open>
  The body of \<open>for i in range(len(above))\<close>, over the remaining indices, with the two
  locals \<open>cycles\<close> and \<open>was_above\<close>. \<open>above[i]\<close> is always in range; \<open>neutral[i]\<close> is read
  only when \<open>above[i]\<close> is false and raises IndexError beyond the end of \<open>neutral\<close>.
\<close>

fun cycles_loop :: "bool list \<Rightarrow> bool list \<Rightarrow> nat list \<Rightarrow> nat \<Rightarrow> bool \<Rightarrow> py_error + nat" where
  "cycles_loop above_np neutral_np [] cycles was_above = Inr cycles"
| "cycles_loop above_np neutral_np (i # rest) cycles was_above =
     (if above_np ! i then cycles_loop above_np neutral_np rest cycles True
      else if length neutral_np \<le> i then Inl IndexError
      else if neutral_np ! i \<and> was_above then cycles_loop above_np neutral_np rest (cycles + 1) False
      else cycles_loop above_np neutral_np rest cycles was_above)"

definition count_complete_cycles :: "bool_series \<Rightarrow> bool_series \<Rightarrow> py_error + nat" where
  "count_complete_cycles above_threshold_series in_neutral_series =
     (let above_np = map truthy above_threshold_series;
          neutral_np = map truthy in_neutral_series
      in cycles_loop above_np neutral_np [0..<length above_np] 0 False)"

subsection \<open>The state machine of the specification\<close>

text \<open>
  The two-state machine as the specification words it: \<open>IDLE\<close> to \<open>ARMED\<close> when
  \<open>above[i]\<close> holds (staying or re-entering \<open>ARMED\<close> whatever the prior state),
  \<open>ARMED\<close> to \<open>IDLE\<close> with the counter incremented when \<open>neutral[i]\<close> holds and the
  state is \<open>ARMED\<close>, and no change on any other row.
\<close>

datatype cycle_state = IDLE | ARMED

fun spec_step :: "cycle_state \<times> nat \<Rightarrow> bool \<times> bool \<Rightarrow> cycle_state \<times> nat" where
  "spec_step (st, n) (a, z) =
     (if a then (ARMED, n)
      else if z \<and> st = ARMED then (IDLE, n + 1)
      else (st, n))"

definition spec_machine :: "bool list \<Rightarrow> bool list \<Rightarrow> nat" where
  "spec_machine above_np neutral_np = snd (foldl spec_step (IDLE, 0) (zip above_np neutral_np))"

text \<open>The number of maximal runs of consecutive true values of a stream.\<close>

fun runs_after :: "bool \<Rightarrow> bool list \<Rightarrow> nat" where
  "runs_after prev [] = 0"
| "runs_after prev (a # rest) = (if a \<and> \<not> prev then 1 else 0) + runs_after a rest"

definition true_runs :: "bool list \<Rightarrow> nat" where
  "true_runs xs = runs_after False xs"

section \<open>Floating-point values\<close>

text \<open>
  A Float64 value of Polars, or a Python \<open>float\<close>: a finite number, one of the two
  infinities, or NaN. Finite arithmetic is taken exact (rounding and overflow are left
  out, and zero is the positive zero); the special values follow IEEE 754: a nonzero
  number divided by zero is an infinity, zero divided by zero is NaN, NaN compares
  false with everything.
\<close>

datatype fval = Fin rat | PInf | NInf | NaN

definition inf_of_sign :: "rat \<Rightarrow> fval" where
  "inf_of_sign s = (if 0 < s then PInf else if s < 0 then NInf else NaN)"

fun fneg :: "fval \<Rightarrow> fval" where
  "fneg (Fin a) = Fin (- a)"
| "fneg PInf = NInf"
| "fneg NInf = PInf"
| "fneg NaN = NaN"

fun fadd :: "fval \<Rightarrow> fval \<Rightarrow> fval" where
  "fadd NaN y = NaN"
| "fadd x NaN = NaN"
| "fadd (Fin a) (Fin b) = Fin (a + b)"
| "fadd PInf NInf = NaN"
| "fadd NInf PInf = NaN"
| "fadd PInf y = PInf"
| "fadd NInf y = NInf"
| "fadd (Fin a) y = y"

definition fsub :: "fval \<Rightarrow> fval \<Rightarrow> fval" where
  "fsub x y = fadd x (fneg y)"

fun fmul :: "fval \<Rightarrow> fval \<Rightarrow> fval" where
  "fmul NaN y = NaN"
| "fmul x NaN = NaN"
| "fmul (Fin a) (Fin b) = Fin (a * b)"
| "fmul (Fin a) PInf = inf_of_sign a"
| "fmul (Fin a) NInf = inf_of_sign (- a)"
| "fmul PInf (Fin b) = inf_of_sign b"
| "fmul NInf (Fin b) = inf_of_sign (- b)"
| "fmul PInf PInf = PInf"
| "fmul PInf NInf = NInf"
| "fmul NInf PInf = NInf"
| "fmul NInf NInf = PInf"

fun fdiv :: "fval \<Rightarrow> fval \<Rightarrow> fval" where
  "fdiv NaN y = NaN"
| "fdiv x NaN = NaN"
| "fdiv (Fin a) (Fin b) = (if b = 0 then inf_of_sign a else Fin (a / b))"
| "fdiv (Fin a) y = Fin 0"
| "fdiv PInf (Fin b) = (if b < 0 then NInf else PInf)"
| "fdiv NInf (Fin b) = (if b < 0 then PInf else NInf)"
| "fdiv x y = NaN"

fun fabs :: "fval \<Rightarrow> fval" where
  "fabs (Fin a) = Fin \<bar>a\<bar>"
| "fabs PInf = PInf"
| "fabs NInf = PInf"
| "fabs NaN = NaN"

fun fsign :: "fval \<Rightarrow> fval" where
  "fsign (Fin a) = Fin (sgn a)"
| "fsign PInf = Fin 1"
| "fsign NInf = Fin (- 1)"
| "fsign NaN = NaN"

fun flt :: "fval \<Rightarrow> fval \<Rightarrow> bool" where
  "flt NaN y = False"
| "flt x NaN = False"
| "flt (Fin a) (Fin b) = (a < b)"
| "flt x NInf = False"
| "flt PInf y = False"
| "flt x y = True"

definition fgt :: "fval \<Rightarrow> fval \<Rightarrow> bool" where
  "fgt x y = flt y x"

section \<open>Python values\<close>

datatype py_val = PyInt int | PyFloat fval | PyBool bool

type_synonym py_dict = "(string \<times> py_val) list"

text \<open>\<open>float(x)\<close>: \<open>float(None)\<close> raises TypeError.\<close>

definition py_float :: "fval option \<Rightarrow> py_error + fval" where
  "py_float v = (case v of None \<Rightarrow> Inl TypeError | Some x \<Rightarrow> Inr x)"

text \<open>Python's \<open>x / y\<close> on floats raises on a zero divisor, unlike the division of Polars.\<close>

definition py_truediv :: "fval \<Rightarrow> fval \<Rightarrow> py_error + fval" where
  "py_truediv x y = (if y = Fin 0 then Inl ZeroDivisionError else Inr (fdiv x y))"

text \<open>\<open>xs[i]\<close> for a non-negative literal index.\<close>

definition py_index :: "'a list \<Rightarrow> nat \<Rightarrow> py_error + 'a" where
  "py_index xs i = (if i < length xs then Inr (xs ! i) else Inl IndexError)"

text \<open>The float a number stands for when it is an operand of a float operation.\<close>

fun py_num :: "py_val \<Rightarrow> fval" where
  "py_num (PyInt i) = Fin (of_int i)"
| "py_num (PyFloat x) = x"
| "py_num (PyBool b) = Fin (if b then 1 else 0)"

section \<open>Polars series and frames\<close>

text \<open>
  A column holds nullable values. Element-wise operations give null where an operand is
  null; aggregations skip nulls and give null when nothing is left.
\<close>

type_synonym float_series = "fval option list"

definition lift2 :: "('a \<Rightarrow> 'b \<Rightarrow> 'c) \<Rightarrow> 'a option \<Rightarrow> 'b option \<Rightarrow> 'c option" where
  "lift2 f x y = (case x of None \<Rightarrow> None | Some a \<Rightarrow> (case y of None \<Rightarrow> None | Some b \<Rightarrow> Some (f a b)))"

text \<open>
  The comparison operators of Polars on Float64 columns use a total order in which NaN is
  equal to itself and greater than every other value, unlike the comparisons of Python
  floats, where NaN compares false.
\<close>

definition pl_lt :: "fval \<Rightarrow> fval \<Rightarrow> bool" where
  "pl_lt x y = (if x = NaN then False else if y = NaN then True else flt x y)"

definition pl_gt :: "fval \<Rightarrow> fval \<Rightarrow> bool" where
  "pl_gt x y = pl_lt y x"

definition non_null :: "'a option list \<Rightarrow> 'a list" where
  "non_null xs = map the (filter (\<lambda>v. v \<noteq> None) xs)"

definition fmax2 :: "fval \<Rightarrow> fval \<Rightarrow> fval" where
  "fmax2 x y = (if flt x y then y else x)"

definition fmin2 :: "fval \<Rightarrow> fval \<Rightarrow> fval" where
  "fmin2 x y = (if flt y x then y else x)"

text \<open>\<open>Series.max()\<close> and \<open>Series.min()\<close>: NaN is ignored unless every value is NaN.\<close>

definition series_max :: "float_series \<Rightarrow> fval option" where
  "series_max xs =
     (let vs = non_null xs; ns = filter (\<lambda>v. v \<noteq> NaN) vs
      in if vs = [] then None
         else if ns = [] then Some NaN
         else Some (foldl fmax2 (hd ns) (tl ns)))"

definition series_min :: "float_series \<Rightarrow> fval option" where
  "series_min xs =
     (let vs = non_null xs; ns = filter (\<lambda>v. v \<noteq> NaN) vs
      in if vs = [] then None
         else if ns = [] then Some NaN
         else Some (foldl fmin2 (hd ns) (tl ns)))"

text \<open>\<open>Series.mean()\<close>: the sum of the non-null values over their number.\<close>

definition series_mean :: "float_series \<Rightarrow> fval option" where
  "series_mean xs =
     (let vs = non_null xs
      in if vs = [] then None
         else Some (fdiv (foldl fadd (Fin 0) vs) (Fin (of_nat (length vs)))))"

text \<open>The mean of a Boolean column is the share of true values among the non-null ones.\<close>

definition bool_mean :: "bool_series \<Rightarrow> fval option" where
  "bool_mean bs =
     (let vs = non_null bs
      in if vs = [] then None
         else Some (Fin (of_nat (length (filter (\<lambda>b. b) vs)) / of_nat (length vs))))"

text \<open>The sum of a Boolean column counts its true values.\<close>

definition bool_sum :: "bool_series \<Rightarrow> nat" where
  "bool_sum bs = length (filter (\<lambda>v. v = Some True) bs)"

text \<open>\<open>shift(1)\<close> moves every value one row down and puts null into the first row.\<close>

definition shift1 :: "'a option list \<Rightarrow> 'a option list" where
  "shift1 xs = (if xs = [] then [] else None # butlast xs)"

text \<open>
  A tick series: \<open>timestamp\<close> in microseconds, \<open>bestBid\<close> and \<open>bestAsk\<close> as nullable
  Float64 columns.
\<close>

record tick =
  timestamp :: int
  bestBid :: "fval option"
  bestAsk :: "fval option"

text \<open>A row of the joined frame, after the two renamings.\<close>

record joined_row =
  row_timestamp :: int
  bid_ex1 :: "fval option"
  ask_ex1 :: "fval option"
  bid_ex2 :: "fval option"
  ask_ex2 :: "fval option"

text \<open>
  \<open>join_asof\<close> with its default strategy \<open>backward\<close>, on the key \<open>timestamp\<close>: every row of
  the left frame is kept and is given the columns of the last row of the right frame
  whose key is less than or equal to its own key, or nulls when there is no such row. Both
  frames are expected sorted by the key.
\<close>

definition asof_match :: "tick list \<Rightarrow> int \<Rightarrow> tick option" where
  "asof_match right_df t =
     (case filter (\<lambda>b. timestamp b \<le> t) right_df of
        [] \<Rightarrow> None
      | b # bs \<Rightarrow> Some (last (b # bs)))"

definition join_asof :: "tick list \<Rightarrow> tick list \<Rightarrow> joined_row list" where
  "join_asof left_df right_df =
     map (\<lambda>a. let m = asof_match right_df (timestamp a)
              in \<lparr> row_timestamp = timestamp a,
                   bid_ex1 = bestBid a, ask_ex1 = bestAsk a,
                   bid_ex2 = Option.bind m bestBid, ask_ex2 = Option.bind m bestAsk \<rparr>)
         left_df"

section \<open>The pair analysis\<close>

text \<open>The columns \<open>ratio\<close> and \<open>deviation\<close> added by the two \<open>with_columns\<close> calls.\<close>

definition ratio_column :: "joined_row list \<Rightarrow> float_series" where
  "ratio_column joined = map (\<lambda>r. lift2 fdiv (bid_ex1 r) (bid_ex2 r)) joined"

definition deviation_column :: "float_series \<Rightarrow> float_series" where
  "deviation_column ratio =
     map (\<lambda>x. lift2 fmul (lift2 fdiv (lift2 fsub x (Some (Fin 1))) (Some (Fin 1))) (Some (Fin 100)))
         ratio"

text \<open>The column \<open>crossed\<close>: \<open>deviation_sign * deviation_sign.shift(1) < 0\<close>.\<close>

definition crossed_column :: "float_series \<Rightarrow> bool_series" where
  "crossed_column deviation =
     (let deviation_sign = map (map_option fsign) deviation
      in map2 (\<lambda>s p. lift2 pl_lt (lift2 fmul s p) (Some (Fin 0)))
              deviation_sign (shift1 deviation_sign))"

definition zero_crossings_of :: "float_series \<Rightarrow> nat" where
  "zero_crossings_of deviation = bool_sum (crossed_column deviation)"

text \<open>The minimum and the maximum of the timestamp column; null on an empty column.\<close>

fun int_min :: "int list \<Rightarrow> int option" where
  "int_min [] = None"
| "int_min (x # xs) = Some (foldl min x xs)"

fun int_max :: "int list \<Rightarrow> int option" where
  "int_max [] = None"
| "int_max (x # xs) = Some (foldl max x xs)"

definition total_seconds :: "int \<Rightarrow> fval" where
  "total_seconds d = Fin (of_int d / 1000000)"

definition duration_hours_of :: "joined_row list \<Rightarrow> py_error + fval" where
  "duration_hours_of joined =
     (let min_timestamp = int_min (map row_timestamp joined);
          max_timestamp = int_max (map row_timestamp joined)
      in case (min_timestamp, max_timestamp) of
           (Some mn, Some mx) \<Rightarrow> Inr (fdiv (total_seconds (mx - mn)) (Fin 3600))
         | _ \<Rightarrow> Inl TypeError)"

text \<open>\<open>x / duration_hours if duration_hours > 0 else 0\<close>\<close>

definition per_hour :: "fval \<Rightarrow> fval \<Rightarrow> py_error + py_val" where
  "per_hour x duration_hours =
     (if fgt duration_hours (Fin 0)
      then ebind (py_truediv x duration_hours) (\<lambda>q. Inr (PyFloat q))
      else Inr (PyInt 0))"

text \<open>\<open>zero_crossings_per_hour / 60 if duration_hours > 0 else 0\<close>\<close>

definition per_minute :: "py_val \<Rightarrow> fval \<Rightarrow> py_error + py_val" where
  "per_minute zero_crossings_per_hour duration_hours =
     (if fgt duration_hours (Fin 0)
      then ebind (py_truediv (py_num zero_crossings_per_hour) (Fin 60)) (\<lambda>q. Inr (PyFloat q))
      else Inr (PyInt 0))"

text \<open>\<open>(duration_hours * pct / 100 * 3600) / cycles if cycles > 0 else 0\<close>\<close>

definition avg_cycle_duration :: "fval \<Rightarrow> fval \<Rightarrow> nat \<Rightarrow> py_error + py_val" where
  "avg_cycle_duration duration_hours pct cycles =
     (if 0 < cycles
      then ebind (py_truediv (fmul (fdiv (fmul duration_hours pct) (Fin 100)) (Fin 3600))
                             (Fin (of_nat cycles)))
                 (\<lambda>q. Inr (PyFloat q))
      else Inr (PyInt 0))"

text \<open>The flag columns \<open>deviation.abs() > t\<close> and \<open>deviation.abs() < zero_threshold\<close>.\<close>

definition above_column :: "float_series \<Rightarrow> fval \<Rightarrow> bool_series" where
  "above_column deviation t = map (\<lambda>d. lift2 pl_gt (map_option fabs d) (Some t)) deviation"

definition neutral_column :: "float_series \<Rightarrow> fval \<Rightarrow> bool_series" where
  "neutral_column deviation zero_threshold =
     map (\<lambda>d. lift2 pl_lt (map_option fabs d) (Some zero_threshold)) deviation"

text \<open>\<open>float(metrics['pct_...'])\<close> of \<open>above.mean() * 100\<close>\<close>

definition pct_above :: "bool_series \<Rightarrow> py_error + fval" where
  "pct_above flags = py_float (lift2 fmul (bool_mean flags) (Some (Fin 100)))"

text \<open>\<open>float(joined['deviation'][-1])\<close>\<close>

definition last_deviation_of :: "float_series \<Rightarrow> py_error + fval" where
  "last_deviation_of deviation =
     (if deviation = [] then Inl IndexError else py_float (last deviation))"

definition default_thresholds :: "fval list" where
  "default_thresholds = [Fin (3 / 10), Fin (1 / 2), Fin (2 / 5)]"

text \<open>
  The body of the \<open>try\<close> block of \<open>analyze_pair_fast\<close>: \<open>Inr None\<close> is the early
  \<open>return None\<close>, \<open>Inr (Some d)\<close> the returned dictionary, \<open>Inl e\<close> a raised exception.
\<close>

definition analyze_body ::
  "string \<Rightarrow> string \<Rightarrow> string \<Rightarrow> tick list \<Rightarrow> tick list \<Rightarrow> fval list option \<Rightarrow> fval
     \<Rightarrow> py_error + py_dict option" where
  "analyze_body symbol ex1 ex2 data1 data2 thresholds zero_threshold =
     (let joined = join_asof data1 data2 in
      if joined = [] then Inr None
      else
      let deviation = deviation_column (ratio_column joined) in
      ebind (py_float (series_max deviation)) (\<lambda>max_deviation_pct.
      ebind (py_float (series_min deviation)) (\<lambda>min_deviation_pct.
      ebind (py_float (series_mean deviation)) (\<lambda>mean_deviation_pct.
      let asymmetry = mean_deviation_pct;
          zero_crossings = zero_crossings_of deviation in
      ebind (duration_hours_of joined) (\<lambda>duration_hours.
      ebind (per_hour (Fin (of_nat zero_crossings)) duration_hours) (\<lambda>zero_crossings_per_hour.
      ebind (per_minute zero_crossings_per_hour duration_hours) (\<lambda>zero_crossings_per_minute.
      let thresholds = (case thresholds of None \<Rightarrow> default_thresholds | Some ts \<Rightarrow> ts) in
      ebind (py_index thresholds 0) (\<lambda>t0.
      ebind (py_index thresholds 1) (\<lambda>t1.
      ebind (py_index thresholds 2) (\<lambda>t2.
      let above_030bp = above_column deviation t0;
          above_050bp = above_column deviation t1;
          above_040bp = above_column deviation t2;
          in_neutral = neutral_column deviation zero_threshold in
      ebind (count_complete_cycles above_030bp in_neutral) (\<lambda>cycles_030bp.
      ebind (count_complete_cycles above_050bp in_neutral) (\<lambda>cycles_050bp.
      ebind (count_complete_cycles above_040bp in_neutral) (\<lambda>cycles_040bp.
      ebind (pct_above above_030bp) (\<lambda>pct_030bp.
      ebind (pct_above above_050bp) (\<lambda>pct_050bp.
      ebind (pct_above above_040bp) (\<lambda>pct_040bp.
      ebind (avg_cycle_duration duration_hours pct_030bp cycles_030bp) (\<lambda>avg_duration_030bp_sec.
      ebind (avg_cycle_duration duration_hours pct_050bp cycles_050bp) (\<lambda>avg_duration_050bp_sec.
      ebind (avg_cycle_duration duration_hours pct_040bp cycles_040bp) (\<lambda>avg_duration_040bp_sec.
      ebind (last_deviation_of deviation) (\<lambda>last_deviation.
      let pattern_break_030bp = fgt (fabs last_deviation) t0;
          pattern_break_050bp = fgt (fabs last_deviation) t1;
          pattern_break_040bp = fgt (fabs last_deviation) t2 in
      ebind (per_hour (Fin (of_nat cycles_030bp)) duration_hours) (\<lambda>cycles_030bp_per_hour.
      ebind (per_hour (Fin (of_nat cycles_050bp)) duration_hours) (\<lambda>cycles_050bp_per_hour.
      ebind (per_hour (Fin (of_nat cycles_040bp)) duration_hours) (\<lambda>cycles_040bp_per_hour.
      Inr (Some
        [(''max_deviation_pct'', PyFloat max_deviation_pct),
         (''min_deviation_pct'', PyFloat min_deviation_pct),
         (''deviation_asymmetry'', PyFloat asymmetry),
         (''zero_crossings'', PyInt (int zero_crossings)),
         (''zero_crossings_per_hour'', zero_crossings_per_hour),
         (''zero_crossings_per_minute'', zero_crossings_per_minute),
         (''opportunity_cycles_030bp'', PyInt (int cycles_030bp)),
         (''cycles_030bp_per_hour'', cycles_030bp_per_hour),
         (''pct_time_above_030bp'', PyFloat pct_030bp),
         (''avg_cycle_duration_030bp_sec'', avg_duration_030bp_sec),
         (''pattern_break_030bp'', PyBool pattern_break_030bp),
         (''opportunity_cycles_050bp'', PyInt (int cycles_050bp)),
         (''cycles_050bp_per_hour'', cycles_050bp_per_hour),
         (''pct_time_above_050bp'', PyFloat pct_050bp),
         (''avg_cycle_duration_050bp_sec'', avg_duration_050bp_sec),
         (''pattern_break_050bp'', PyBool pattern_break_050bp),
         (''opportunity_cycles_040bp'', PyInt (int cycles_040bp)),
         (''cycles_040bp_per_hour'', cycles_040bp_per_hour),
         (''pct_time_above_040bp'', PyFloat pct_040bp),
         (''avg_cycle_duration_040bp_sec'', avg_duration_040bp_sec),
         (''pattern_break_040bp'', PyBool pattern_break_040bp),
         (''data_points'', PyInt (int (length joined))),
         (''duration_hours'', PyFloat duration_hours)]))))))))))))))))))))))))"

text \<open>
  \<open>analyze_pair_fast\<close>: the \<open>except Exception\<close> clause turns every exception of the body
  into the result \<open>None\<close>.
\<close>

definition analyze_pair_fast ::
  "string \<Rightarrow> string \<Rightarrow> string \<Rightarrow> tick list \<Rightarrow> tick list \<Rightarrow> fval list option \<Rightarrow> fval
     \<Rightarrow> py_dict option" where
  "analyze_pair_fast symbol ex1 ex2 data1 data2 thresholds zero_threshold =
     (case analyze_body symbol ex1 ex2 data1 data2 thresholds zero_threshold of
        Inl e \<Rightarrow> None
      | Inr r \<Rightarrow> r)"

section \<open>Proof devices\<close>


text \<open>The loop over the index range agrees with a scan of the zipped rows.\<close>

fun scan_rows :: "(bool \<times> bool) list \<Rightarrow> nat \<Rightarrow> bool \<Rightarrow> nat" where
  "scan_rows [] c w = c"
| "scan_rows ((a, z) # rest) c w =
     (if a then scan_rows rest c True
      else if z \<and> w then scan_rows rest (c + 1) False
      else scan_rows rest c w)"

text \<open>Closed forms of the values that \<open>analyze_pair_fast\<close> computes, for the proofs.\<close>

definition thresholds_of :: "fval list option \<Rightarrow> fval list" where
  "thresholds_of thresholds = (case thresholds of None \<Rightarrow> default_thresholds | Some ts \<Rightarrow> ts)"

definition cycles_of :: "float_series \<Rightarrow> fval \<Rightarrow> fval \<Rightarrow> nat" where
  "cycles_of dev t z =
     scan_rows (zip (map truthy (above_column dev t)) (map truthy (neutral_column dev z))) 0 False"

definition dh_of :: "joined_row list \<Rightarrow> fval" where
  "dh_of joined =
     fdiv (total_seconds (the (int_max (map row_timestamp joined))
                          - the (int_min (map row_timestamp joined)))) (Fin 3600)"

definition pct_of :: "float_series \<Rightarrow> fval \<Rightarrow> fval" where
  "pct_of dev t = fmul (the (bool_mean (above_column dev t))) (Fin 100)"

definition rate_of :: "fval \<Rightarrow> fval \<Rightarrow> py_val" where
  "rate_of x dh = (if fgt dh (Fin 0) then PyFloat (fdiv x dh) else PyInt 0)"

definition minute_of :: "py_val \<Rightarrow> fval \<Rightarrow> py_val" where
  "minute_of q dh = (if fgt dh (Fin 0) then PyFloat (fdiv (py_num q) (Fin 60)) else PyInt 0)"

definition avg_of :: "fval \<Rightarrow> fval \<Rightarrow> nat \<Rightarrow> py_val" where
  "avg_of dh pct n =
     (if 0 < n
      then PyFloat (fdiv (fmul (fdiv (fmul dh pct) (Fin 100)) (Fin 3600)) (Fin (of_nat n)))
      else PyInt 0)"

definition metrics_of :: "joined_row list \<Rightarrow> float_series \<Rightarrow> fval list \<Rightarrow> fval \<Rightarrow> py_dict" where
  "metrics_of joined dev ths z =
     [(''max_deviation_pct'', PyFloat (the (series_max dev))),
      (''min_deviation_pct'', PyFloat (the (series_min dev))),
      (''deviation_asymmetry'', PyFloat (the (series_mean dev))),
      (''zero_crossings'', PyInt (int (zero_crossings_of dev))),
      (''zero_crossings_per_hour'', rate_of (Fin (of_nat (zero_crossings_of dev))) (dh_of joined)),
      (''zero_crossings_per_minute'',
         minute_of (rate_of (Fin (of_nat (zero_crossings_of dev))) (dh_of joined)) (dh_of joined)),
      (''opportunity_cycles_030bp'', PyInt (int (cycles_of dev (ths ! 0) z))),
      (''cycles_030bp_per_hour'', rate_of (Fin (of_nat (cycles_of dev (ths ! 0) z))) (dh_of joined)),
      (''pct_time_above_030bp'', PyFloat (pct_of dev (ths ! 0))),
      (''avg_cycle_duration_030bp_sec'',
         avg_of (dh_of joined) (pct_of dev (ths ! 0)) (cycles_of dev (ths ! 0) z)),
      (''pattern_break_030bp'', PyBool (fgt (fabs (the (last dev))) (ths ! 0))),
      (''opportunity_cycles_050bp'', PyInt (int (cycles_of dev (ths ! 1) z))),
      (''cycles_050bp_per_hour'', rate_of (Fin (of_nat (cycles_of dev (ths ! 1) z))) (dh_of joined)),
      (''pct_time_above_050bp'', PyFloat (pct_of dev (ths ! 1))),
      (''avg_cycle_duration_050bp_sec'',
         avg_of (dh_of joined) (pct_of dev (ths ! 1)) (cycles_of dev (ths ! 1) z)),
      (''pattern_break_050bp'', PyBool (fgt (fabs (the (last dev))) (ths ! 1))),
      (''opportunity_cycles_040bp'', PyInt (int (cycles_of dev (ths ! 2) z))),
      (''cycles_040bp_per_hour'', rate_of (Fin (of_nat (cycles_of dev (ths ! 2) z))) (dh_of joined)),
      (''pct_time_above_040bp'', PyFloat (pct_of dev (ths ! 2))),
      (''avg_cycle_duration_040bp_sec'',
         avg_of (dh_of joined) (pct_of dev (ths ! 2)) (cycles_of dev (ths ! 2) z)),
      (''pattern_break_040bp'', PyBool (fgt (fabs (the (last dev))) (ths ! 2))),
      (''data_points'', PyInt (int (length joined))),
      (''duration_hours'', PyFloat (dh_of joined))]"


section \<open>Properties of the cycle counter\<close>

lemma cycles_loop_scan:
  assumes "length above_np = length neutral_np"
  shows "k \<le> length above_np \<Longrightarrow>
         cycles_loop above_np neutral_np [k..<length above_np] c w
           = Inr (scan_rows (drop k (zip above_np neutral_np)) c w)"
proof (induction "length above_np - k" arbitrary: k c w)
  case 0
  then show ?case by simp
next
  case (Suc d)
  then have k: "k < length above_np" by simp
  have upt: "[k..<length above_np] = k # [Suc k..<length above_np]"
    using k by (simp add: upt_conv_Cons)
  have dr: "drop k (zip above_np neutral_np) = (above_np ! k, neutral_np ! k) # drop (Suc k) (zip above_np neutral_np)"
    using k assms by (simp add: Cons_nth_drop_Suc [symmetric])
  have ih: "\<And>c w. cycles_loop above_np neutral_np [Suc k..<length above_np] c w
           = Inr (scan_rows (drop (Suc k) (zip above_np neutral_np)) c w)"
    using Suc.hyps(1) [of "Suc k"] Suc.hyps(2) k by simp
  have kn: "\<not> length neutral_np \<le> k"
    using k assms by simp
  show ?case
    by (simp add: upt dr ih kn)
qed

lemma count_complete_cycles_scan:
  assumes "length a = length z"
  shows "count_complete_cycles a z = Inr (scan_rows (zip (map truthy a) (map truthy z)) 0 False)"
  using cycles_loop_scan [of "map truthy a" "map truthy z" 0 0 False] assms
  by (simp add: count_complete_cycles_def)

lemma scan_rows_foldl:
  "scan_rows rows c w = snd (foldl spec_step (if w then ARMED else IDLE, c) rows)"
  by (induction rows c w rule: scan_rows.induct) auto

lemma scan_rows_append:
  "scan_rows (xs @ ys) c w
     = scan_rows ys (scan_rows xs c w) (fst (foldl spec_step (if w then ARMED else IDLE, c) xs) = ARMED)"
  by (induction xs c w rule: scan_rows.induct) auto

lemma scan_rows_no_neutral:
  "\<forall>r \<in> set rows. \<not> snd r \<Longrightarrow> scan_rows rows c w = c"
  by (induction rows c w rule: scan_rows.induct) auto

lemma scan_rows_le_runs:
  "(p \<longrightarrow> w) \<Longrightarrow> scan_rows rows c w \<le> c + runs_after p (map fst rows) + (if w then 1 else 0)"
proof (induction rows c w arbitrary: p rule: scan_rows.induct)
  case (1 c w)
  then show ?case by simp
next
  case (2 a z rest c w)
  show ?case
  proof (cases a)
    case True
    have "scan_rows rest c True \<le> c + runs_after True (map fst rest) + 1"
      using "2.IH"(1) [of True] True by simp
    then show ?thesis using True "2.prems" by auto
  next
    case False
    show ?thesis
    proof (cases "z \<and> w")
      case True
      have "scan_rows rest (c + 1) False \<le> (c + 1) + runs_after False (map fst rest) + 0"
        using "2.IH"(2) [of False] False True by simp
      then show ?thesis using False True by simp
    next
      case nz: False
      have "scan_rows rest c w \<le> c + runs_after False (map fst rest) + (if w then 1 else 0)"
        using "2.IH"(3) [of False] False nz by simp
      then show ?thesis using False nz by auto
    qed
  qed
qed

text \<open>
  C2: \<open>count_complete_cycles\<close> computes the count of the two-state machine of the
  specification, scanned row by row in order, on every pair of co-indexed boolean streams;
  on the four scenarios of the specification it returns 1, 2, 0 and 0.
\<close>

theorem count_complete_cycles_state_machine:
  "(length a = length z \<longrightarrow>
      count_complete_cycles a z = Inr (spec_machine (map truthy a) (map truthy z)))
   \<and> count_complete_cycles [Some False, Some True, Some True, Some False]
        [Some True, Some False, Some False, Some True] = Inr 1
   \<and> count_complete_cycles [Some False, Some True, Some False, Some True, Some False]
        [Some True, Some False, Some True, Some False, Some True] = Inr 2
   \<and> count_complete_cycles [Some True, Some True, Some True]
        [Some False, Some False, Some False] = Inr 0
   \<and> count_complete_cycles [Some False, Some False, Some False]
        [Some True, Some True, Some True] = Inr 0"
proof -
  have "length a = length z \<longrightarrow>
      count_complete_cycles a z = Inr (spec_machine (map truthy a) (map truthy z))"
    by (simp add: count_complete_cycles_scan scan_rows_foldl spec_machine_def)
  moreover have "count_complete_cycles [Some False, Some True, Some True, Some False]
        [Some True, Some False, Some False, Some True] = Inr 1"
    by (simp add: count_complete_cycles_scan truthy_def)
  moreover have "count_complete_cycles [Some False, Some True, Some False, Some True, Some False]
        [Some True, Some False, Some True, Some False, Some True] = Inr 2"
    by (simp add: count_complete_cycles_scan truthy_def)
  moreover have "count_complete_cycles [Some True, Some True, Some True]
        [Some False, Some False, Some False] = Inr 0"
    by (simp add: count_complete_cycles_scan truthy_def)
  moreover have "count_complete_cycles [Some False, Some False, Some False]
        [Some True, Some True, Some True] = Inr 0"
    by (simp add: count_complete_cycles_scan truthy_def)
  ultimately show ?thesis by blast
qed

theorem count_complete_cycles_state_machine_witness:
  "length [Some True, Some False, None] = length [Some False, None, Some True]
   \<and> count_complete_cycles [Some True, Some False, None] [Some False, None, Some True]
       = Inr (spec_machine [True, False, False] [False, False, True])
   \<and> spec_machine [True, False, False] [False, False, True] = 1"
  using count_complete_cycles_state_machine [of "[Some True, Some False, None]" "[Some False, None, Some True]"]
  by (simp add: truthy_def spec_machine_def)

text \<open>
  C8: \<open>count_complete_cycles\<close> is a function of its two streams (evaluating it again on
  the same input gives the same count); the count is at most the number of maximal runs of
  true values of the above stream; and a stretch of rows at the end of the series in which
  the neutral stream is never true adds nothing to the count, whatever the above stream
  does there.
\<close>

theorem count_complete_cycles_runs_bound:
  "length a = length z \<longrightarrow>
     (\<exists>n. count_complete_cycles a z = Inr n
        \<and> (\<forall>a' z'. a' = a \<and> z' = z \<longrightarrow> count_complete_cycles a' z' = Inr n)
        \<and> n \<le> true_runs (map truthy a)
        \<and> (\<forall>a2 z2. length a2 = length z2 \<and> (\<forall>v \<in> set z2. \<not> truthy v)
              \<longrightarrow> count_complete_cycles (a @ a2) (z @ z2) = Inr n))"
proof
  assume len: "length a = length z"
  let ?rows = "zip (map truthy a) (map truthy z)"
  let ?n = "scan_rows ?rows 0 False"
  have eq: "count_complete_cycles a z = Inr ?n"
    using len by (rule count_complete_cycles_scan)
  have fst_rows: "map fst ?rows = map truthy a"
    using len by (simp add: map_fst_zip)
  have bound: "?n \<le> true_runs (map truthy a)"
    using scan_rows_le_runs [of False False ?rows 0] by (simp add: true_runs_def fst_rows)
  have tail: "count_complete_cycles (a @ a2) (z @ z2) = Inr ?n"
    if l2: "length a2 = length z2" and nz: "\<forall>v \<in> set z2. \<not> truthy v" for a2 z2
  proof -
    let ?rows2 = "zip (map truthy a2) (map truthy z2)"
    have "\<forall>r \<in> set ?rows2. \<not> snd r"
      using nz by (auto dest!: set_zip_rightD)
    then have none: "\<And>c w. scan_rows ?rows2 c w = c"
      by (rule scan_rows_no_neutral)
    have "zip (map truthy (a @ a2)) (map truthy (z @ z2)) = ?rows @ ?rows2"
      using len by simp
    then show ?thesis
      using count_complete_cycles_scan [of "a @ a2" "z @ z2"] len l2
      by (simp add: scan_rows_append none)
  qed
  show "\<exists>n. count_complete_cycles a z = Inr n
        \<and> (\<forall>a' z'. a' = a \<and> z' = z \<longrightarrow> count_complete_cycles a' z' = Inr n)
        \<and> n \<le> true_runs (map truthy a)
        \<and> (\<forall>a2 z2. length a2 = length z2 \<and> (\<forall>v \<in> set z2. \<not> truthy v)
              \<longrightarrow> count_complete_cycles (a @ a2) (z @ z2) = Inr n)"
    using eq bound tail by blast
qed

theorem count_complete_cycles_runs_bound_witness:
  "count_complete_cycles [Some True, Some False, Some True] [Some False, Some True, Some False] = Inr 1
   \<and> true_runs (map truthy [Some True, Some False, Some True]) = 2
   \<and> count_complete_cycles ([Some True, Some False, Some True] @ [Some True, Some False])
        ([Some False, Some True, Some False] @ [Some False, None]) = Inr 1"
proof -
  have c: "count_complete_cycles [Some True, Some False, Some True] [Some False, Some True, Some False] = Inr 1"
    by (simp add: count_complete_cycles_scan truthy_def)
  have r: "true_runs (map truthy [Some True, Some False, Some True]) = 2"
    by (simp add: true_runs_def truthy_def)
  have "\<forall>v \<in> set [Some False, None]. \<not> truthy v"
    by (simp add: truthy_def)
  then have "count_complete_cycles ([Some True, Some False, Some True] @ [Some True, Some False])
        ([Some False, Some True, Some False] @ [Some False, None]) = Inr 1"
    using count_complete_cycles_runs_bound
      [of "[Some True, Some False, Some True]" "[Some False, Some True, Some False]"] c
    by (metis length_Cons list.size(3))
  then show ?thesis using c r by simp
qed

section \<open>Properties of the pair analysis\<close>

lemma ebind_simps [simp]: "ebind (Inr v) f = f v" "ebind (Inl e) f = Inl e"
  by (simp_all add: ebind_def)

lemma fgt_zero_neq: "fgt x (Fin 0) \<Longrightarrow> x \<noteq> Fin 0"
  by (auto simp: fgt_def)

lemma per_hour_eq:
  "per_hour x dh = Inr (if fgt dh (Fin 0) then PyFloat (fdiv x dh) else PyInt 0)"
  by (auto simp: per_hour_def py_truediv_def dest: fgt_zero_neq)

lemma per_minute_eq:
  "per_minute q dh = Inr (if fgt dh (Fin 0) then PyFloat (fdiv (py_num q) (Fin 60)) else PyInt 0)"
  by (simp add: per_minute_def py_truediv_def)

lemma avg_cycle_duration_eq:
  "avg_cycle_duration dh pct n
     = Inr (if 0 < n
            then PyFloat (fdiv (fmul (fdiv (fmul dh pct) (Fin 100)) (Fin 3600)) (Fin (of_nat n)))
            else PyInt 0)"
  by (simp add: avg_cycle_duration_def py_truediv_def)

lemma length_deviation_column [simp]: "length (deviation_column r) = length r"
  by (simp add: deviation_column_def)

lemma length_ratio_column [simp]: "length (ratio_column j) = length j"
  by (simp add: ratio_column_def)

lemma length_above_column [simp]: "length (above_column d t) = length d"
  by (simp add: above_column_def)

lemma length_neutral_column [simp]: "length (neutral_column d z) = length d"
  by (simp add: neutral_column_def)

lemma count_cycles_columns:
  "count_complete_cycles (above_column dev t) (neutral_column dev z) = Inr (cycles_of dev t z)"
  by (simp add: count_complete_cycles_scan cycles_of_def)

lemma duration_hours_of_eq:
  "joined \<noteq> [] \<Longrightarrow> duration_hours_of joined = Inr (dh_of joined)"
  by (cases joined) (simp_all add: duration_hours_of_def dh_of_def)

lemma non_null_empty: "non_null xs = [] \<longleftrightarrow> (\<forall>v \<in> set xs. v = None)"
  by (auto simp: non_null_def filter_empty_conv)

lemma non_null_above_column: "non_null (above_column dev t) = [] \<longleftrightarrow> non_null dev = []"
  by (auto simp: non_null_empty above_column_def lift2_def split: option.splits)

lemma float_series_max:
  "py_float (series_max dev)
     = (if non_null dev = [] then Inl TypeError else Inr (the (series_max dev)))"
  by (simp add: py_float_def series_max_def Let_def)

lemma float_series_min:
  "py_float (series_min dev)
     = (if non_null dev = [] then Inl TypeError else Inr (the (series_min dev)))"
  by (simp add: py_float_def series_min_def Let_def)

lemma float_series_mean:
  "py_float (series_mean dev)
     = (if non_null dev = [] then Inl TypeError else Inr (the (series_mean dev)))"
  by (simp add: py_float_def series_mean_def Let_def)

lemma pct_above_eq:
  "non_null dev \<noteq> [] \<Longrightarrow> pct_above (above_column dev t) = Inr (pct_of dev t)"
  by (simp add: pct_above_def pct_of_def py_float_def bool_mean_def Let_def lift2_def
        non_null_above_column)

lemma last_deviation_of_eq:
  "dev \<noteq> [] \<Longrightarrow> last_deviation_of dev
     = (if last dev = None then Inl TypeError else Inr (the (last dev)))"
  by (auto simp: last_deviation_of_def py_float_def)

lemma py_index_eq: "py_index xs i = (if i < length xs then Inr (xs ! i) else Inl IndexError)"
  by (simp add: py_index_def)

lemma analyze_body_closed:
  "analyze_body symbol ex1 ex2 data1 data2 thresholds zero_threshold =
     (let joined = join_asof data1 data2;
          dev = deviation_column (ratio_column joined);
          ths = thresholds_of thresholds
      in if joined = [] then Inr None
         else if non_null dev = [] then Inl TypeError
         else if length ths < 3 then Inl IndexError
         else if last dev = None then Inl TypeError
         else Inr (Some (metrics_of joined dev ths zero_threshold)))"
proof -
  let ?j = "join_asof data1 data2"
  let ?dev = "deviation_column (ratio_column ?j)"
  let ?ths = "thresholds_of thresholds"
  show ?thesis
  proof (cases "?j = []")
    case True
    then show ?thesis by (simp add: analyze_body_def)
  next
    case j: False
    then have dne: "?dev \<noteq> []" by (simp add: deviation_column_def ratio_column_def)
    show ?thesis
    proof (cases "non_null ?dev = []")
      case True
      then show ?thesis using j
        by (simp add: analyze_body_def Let_def float_series_max)
    next
      case nn: False
      show ?thesis
      proof (cases "length ?ths < 3")
        case True
        then show ?thesis using j nn
          by (simp add: analyze_body_def Let_def float_series_max float_series_min
                float_series_mean duration_hours_of_eq per_hour_eq per_minute_eq
                py_index_eq thresholds_of_def)
      next
        case len: False
        then have idx: "0 < length ?ths" "1 < length ?ths" "2 < length ?ths" "?ths \<noteq> []"
          by auto
        show ?thesis using j nn len dne idx
          by (simp add: analyze_body_def Let_def float_series_max float_series_min
                float_series_mean duration_hours_of_eq per_hour_eq per_minute_eq
                py_index_eq thresholds_of_def [symmetric] count_cycles_columns pct_above_eq
                avg_cycle_duration_eq last_deviation_of_eq metrics_of_def rate_of_def
                avg_of_def minute_of_def)
      qed
    qed
  qed
qed

lemma asof_match_empty [simp]: "asof_match [] t = None"
  by (simp add: asof_match_def)

lemma join_asof_Nil [simp]: "join_asof [] right_df = []"
  by (simp add: join_asof_def)

lemma join_asof_eq_Nil [simp]: "join_asof left_df right_df = [] \<longleftrightarrow> left_df = []"
  by (simp add: join_asof_def)

lemma deviation_right_empty:
  "non_null (deviation_column (ratio_column (join_asof data1 []))) = []"
  by (simp add: non_null_empty deviation_column_def ratio_column_def join_asof_def lift2_def
        split: option.splits)

text \<open>
  C6: when either input series is empty, and whenever the synchronized series is empty,
  \<open>analyze_pair_fast\<close> returns \<open>None\<close>; no exception leaves the function, whose result
  is an optional dictionary. With an empty synchronized series the body takes the early
  \<open>return None\<close>.
\<close>

theorem analyze_pair_fast_empty_input:
  "(data1 = [] \<or> data2 = [] \<or> join_asof data1 data2 = [] \<longrightarrow>
      analyze_pair_fast symbol ex1 ex2 data1 data2 thresholds zero_threshold = None)
   \<and> (join_asof data1 data2 = [] \<longrightarrow>
      analyze_body symbol ex1 ex2 data1 data2 thresholds zero_threshold = Inr None)"
proof -
  have a: "analyze_pair_fast symbol ex1 ex2 data1 data2 thresholds zero_threshold = None"
    if "data1 = []"
    using that by (simp add: analyze_pair_fast_def analyze_body_closed)
  have b: "analyze_pair_fast symbol ex1 ex2 data1 data2 thresholds zero_threshold = None"
    if "data2 = []"
    using that deviation_right_empty [of data1]
    by (simp add: analyze_pair_fast_def analyze_body_closed Let_def)
  have c: "analyze_body symbol ex1 ex2 data1 data2 thresholds zero_threshold = Inr None"
    if "join_asof data1 data2 = []"
    using that by (simp add: analyze_body_closed)
  show ?thesis using a b c by auto
qed



theorem analyze_pair_fast_empty_input_witness:
  "analyze_pair_fast ''BTC/USDT'' ''A'' ''B'' []
      [\<lparr> timestamp = 0, bestBid = Some (Fin 100), bestAsk = Some (Fin 101) \<rparr>] None (Fin (1 / 20)) = None
   \<and> analyze_pair_fast ''BTC/USDT'' ''A'' ''B''
      [\<lparr> timestamp = 0, bestBid = Some (Fin 100), bestAsk = Some (Fin 101) \<rparr>] [] None (Fin (1 / 20)) = None
   \<and> analyze_body ''BTC/USDT'' ''A'' ''B'' []
      [\<lparr> timestamp = 0, bestBid = Some (Fin 100), bestAsk = Some (Fin 101) \<rparr>] None (Fin (1 / 20)) = Inr None"
  using analyze_pair_fast_empty_input [of "[]" "[\<lparr> timestamp = 0, bestBid = Some (Fin 100), bestAsk = Some (Fin 101) \<rparr>]" "''BTC/USDT''" "''A''" "''B''" None "Fin (1 / 20)"]
    analyze_pair_fast_empty_input [of "[\<lparr> timestamp = 0, bestBid = Some (Fin 100), bestAsk = Some (Fin 101) \<rparr>]" "[]" "''BTC/USDT''" "''A''" "''B''" None "Fin (1 / 20)"]
  by simp

lemma analyze_pair_fast_SomeD:
  assumes "analyze_pair_fast symbol ex1 ex2 data1 data2 thresholds zero_threshold = Some d"
  shows "join_asof data1 data2 \<noteq> []"
    and "non_null (deviation_column (ratio_column (join_asof data1 data2))) \<noteq> []"
    and "3 \<le> length (thresholds_of thresholds)"
    and "last (deviation_column (ratio_column (join_asof data1 data2))) \<noteq> None"
    and "d = metrics_of (join_asof data1 data2)
               (deviation_column (ratio_column (join_asof data1 data2)))
               (thresholds_of thresholds) zero_threshold"
  using assms
  by (simp_all add: analyze_pair_fast_def analyze_body_closed Let_def split: if_splits)

lemma analyze_pair_fast_SomeI:
  assumes "join_asof data1 data2 \<noteq> []"
    and "non_null (deviation_column (ratio_column (join_asof data1 data2))) \<noteq> []"
    and "3 \<le> length (thresholds_of thresholds)"
    and "last (deviation_column (ratio_column (join_asof data1 data2))) \<noteq> None"
  shows "analyze_pair_fast symbol ex1 ex2 data1 data2 thresholds zero_threshold
     = Some (metrics_of (join_asof data1 data2)
               (deviation_column (ratio_column (join_asof data1 data2)))
               (thresholds_of thresholds) zero_threshold)"
  using assms
  by (simp add: analyze_pair_fast_def analyze_body_closed Let_def)

lemma analyze_body_no_zero_division:
  "analyze_body symbol ex1 ex2 data1 data2 thresholds zero_threshold \<noteq> Inl ZeroDivisionError"
  by (simp add: analyze_body_closed Let_def)

lemma metrics_keys:
  "map fst (metrics_of joined dev ths z) =
     [''max_deviation_pct'', ''min_deviation_pct'', ''deviation_asymmetry'', ''zero_crossings'',
      ''zero_crossings_per_hour'', ''zero_crossings_per_minute'',
      ''opportunity_cycles_030bp'', ''cycles_030bp_per_hour'', ''pct_time_above_030bp'',
      ''avg_cycle_duration_030bp_sec'', ''pattern_break_030bp'',
      ''opportunity_cycles_050bp'', ''cycles_050bp_per_hour'', ''pct_time_above_050bp'',
      ''avg_cycle_duration_050bp_sec'', ''pattern_break_050bp'',
      ''opportunity_cycles_040bp'', ''cycles_040bp_per_hour'', ''pct_time_above_040bp'',
      ''avg_cycle_duration_040bp_sec'', ''pattern_break_040bp'',
      ''data_points'', ''duration_hours'']"
  by (simp add: metrics_of_def)

lemma metrics_lookup:
  "map_of (metrics_of joined dev ths z) ''max_deviation_pct'' = Some (PyFloat (the (series_max dev)))"
  "map_of (metrics_of joined dev ths z) ''min_deviation_pct'' = Some (PyFloat (the (series_min dev)))"
  "map_of (metrics_of joined dev ths z) ''deviation_asymmetry'' = Some (PyFloat (the (series_mean dev)))"
  "map_of (metrics_of joined dev ths z) ''zero_crossings'' = Some (PyInt (int (zero_crossings_of dev)))"
  "map_of (metrics_of joined dev ths z) ''zero_crossings_per_hour''
     = Some (rate_of (Fin (of_nat (zero_crossings_of dev))) (dh_of joined))"
  "map_of (metrics_of joined dev ths z) ''zero_crossings_per_minute''
     = Some (minute_of (rate_of (Fin (of_nat (zero_crossings_of dev))) (dh_of joined)) (dh_of joined))"
  "map_of (metrics_of joined dev ths z) ''data_points'' = Some (PyInt (int (length joined)))"
  "map_of (metrics_of joined dev ths z) ''duration_hours'' = Some (PyFloat (dh_of joined))"
  by (simp_all add: metrics_of_def)

lemma metrics_lookup_030:
  "map_of (metrics_of joined dev ths z) ''opportunity_cycles_030bp''
     = Some (PyInt (int (cycles_of dev (ths ! 0) z)))"
  "map_of (metrics_of joined dev ths z) ''cycles_030bp_per_hour''
     = Some (rate_of (Fin (of_nat (cycles_of dev (ths ! 0) z))) (dh_of joined))"
  "map_of (metrics_of joined dev ths z) ''pct_time_above_030bp'' = Some (PyFloat (pct_of dev (ths ! 0)))"
  "map_of (metrics_of joined dev ths z) ''avg_cycle_duration_030bp_sec''
     = Some (avg_of (dh_of joined) (pct_of dev (ths ! 0)) (cycles_of dev (ths ! 0) z))"
  "map_of (metrics_of joined dev ths z) ''pattern_break_030bp''
     = Some (PyBool (fgt (fabs (the (last dev))) (ths ! 0)))"
  by (simp_all add: metrics_of_def)

lemma metrics_lookup_050:
  "map_of (metrics_of joined dev ths z) ''opportunity_cycles_050bp''
     = Some (PyInt (int (cycles_of dev (ths ! 1) z)))"
  "map_of (metrics_of joined dev ths z) ''cycles_050bp_per_hour''
     = Some (rate_of (Fin (of_nat (cycles_of dev (ths ! 1) z))) (dh_of joined))"
  "map_of (metrics_of joined dev ths z) ''pct_time_above_050bp'' = Some (PyFloat (pct_of dev (ths ! 1)))"
  "map_of (metrics_of joined dev ths z) ''avg_cycle_duration_050bp_sec''
     = Some (avg_of (dh_of joined) (pct_of dev (ths ! 1)) (cycles_of dev (ths ! 1) z))"
  "map_of (metrics_of joined dev ths z) ''pattern_break_050bp''
     = Some (PyBool (fgt (fabs (the (last dev))) (ths ! 1)))"
  by (simp_all add: metrics_of_def)

lemma metrics_lookup_040:
  "map_of (metrics_of joined dev ths z) ''opportunity_cycles_040bp''
     = Some (PyInt (int (cycles_of dev (ths ! 2) z)))"
  "map_of (metrics_of joined dev ths z) ''cycles_040bp_per_hour''
     = Some (rate_of (Fin (of_nat (cycles_of dev (ths ! 2) z))) (dh_of joined))"
  "map_of (metrics_of joined dev ths z) ''pct_time_above_040bp'' = Some (PyFloat (pct_of dev (ths ! 2)))"
  "map_of (metrics_of joined dev ths z) ''avg_cycle_duration_040bp_sec''
     = Some (avg_of (dh_of joined) (pct_of dev (ths ! 2)) (cycles_of dev (ths ! 2) z))"
  "map_of (metrics_of joined dev ths z) ''pattern_break_040bp''
     = Some (PyBool (fgt (fabs (the (last dev))) (ths ! 2)))"
  by (simp_all add: metrics_of_def)

lemma dh_zero_duration:
  "int_min (map row_timestamp joined) = int_max (map row_timestamp joined) \<Longrightarrow>
     joined \<noteq> [] \<Longrightarrow> dh_of joined = Fin 0"
  by (cases joined) (simp_all add: dh_of_def total_seconds_def)

lemma rate_of_zero [simp]: "rate_of x (Fin 0) = PyInt 0"
  by (simp add: rate_of_def fgt_def)

lemma minute_of_zero [simp]: "minute_of q (Fin 0) = PyInt 0"
  by (simp add: minute_of_def fgt_def)

lemma avg_of_zero [simp]: "avg_of dh pct 0 = PyInt 0"
  by (simp add: avg_of_def)

text \<open>
  C7: when the minimum and the maximum timestamp of the synchronized series are equal,
  the returned \<open>zero_crossings_per_hour\<close>, \<open>zero_crossings_per_minute\<close> and the
  cycles-per-hour of each threshold are the integer 0; the average cycle duration of a
  threshold is 0 whenever the cycle count of that threshold is 0; and the body never
  raises ZeroDivisionError.
\<close>

theorem zero_duration_rates:
  "analyze_body symbol ex1 ex2 data1 data2 thresholds zero_threshold \<noteq> Inl ZeroDivisionError
   \<and> (analyze_pair_fast symbol ex1 ex2 data1 data2 thresholds zero_threshold = Some d \<longrightarrow>
        (int_min (map row_timestamp (join_asof data1 data2))
           = int_max (map row_timestamp (join_asof data1 data2)) \<longrightarrow>
           map_of d ''zero_crossings_per_hour'' = Some (PyInt 0)
         \<and> map_of d ''zero_crossings_per_minute'' = Some (PyInt 0)
         \<and> map_of d ''cycles_030bp_per_hour'' = Some (PyInt 0)
         \<and> map_of d ''cycles_050bp_per_hour'' = Some (PyInt 0)
         \<and> map_of d ''cycles_040bp_per_hour'' = Some (PyInt 0))
      \<and> (map_of d ''opportunity_cycles_030bp'' = Some (PyInt 0) \<longrightarrow>
           map_of d ''avg_cycle_duration_030bp_sec'' = Some (PyInt 0))
      \<and> (map_of d ''opportunity_cycles_050bp'' = Some (PyInt 0) \<longrightarrow>
           map_of d ''avg_cycle_duration_050bp_sec'' = Some (PyInt 0))
      \<and> (map_of d ''opportunity_cycles_040bp'' = Some (PyInt 0) \<longrightarrow>
           map_of d ''avg_cycle_duration_040bp_sec'' = Some (PyInt 0)))"
proof (intro conjI impI)
  show "analyze_body symbol ex1 ex2 data1 data2 thresholds zero_threshold \<noteq> Inl ZeroDivisionError"
    by (rule analyze_body_no_zero_division)
next
  assume r: "analyze_pair_fast symbol ex1 ex2 data1 data2 thresholds zero_threshold = Some d"
    and z: "int_min (map row_timestamp (join_asof data1 data2))
           = int_max (map row_timestamp (join_asof data1 data2))"
  have dh: "dh_of (join_asof data1 data2) = Fin 0"
    using z analyze_pair_fast_SomeD(1) [OF r] by (rule dh_zero_duration)
  note d = analyze_pair_fast_SomeD(5) [OF r]
  show "map_of d ''zero_crossings_per_hour'' = Some (PyInt 0)"
    by (simp add: d metrics_lookup dh)
  show "map_of d ''zero_crossings_per_minute'' = Some (PyInt 0)"
    by (simp add: d metrics_lookup dh)
  show "map_of d ''cycles_030bp_per_hour'' = Some (PyInt 0)"
    by (simp add: d metrics_lookup_030 dh)
  show "map_of d ''cycles_050bp_per_hour'' = Some (PyInt 0)"
    by (simp add: d metrics_lookup_050 dh)
  show "map_of d ''cycles_040bp_per_hour'' = Some (PyInt 0)"
    by (simp add: d metrics_lookup_040 dh)
next
  assume r: "analyze_pair_fast symbol ex1 ex2 data1 data2 thresholds zero_threshold = Some d"
    and c: "map_of d ''opportunity_cycles_030bp'' = Some (PyInt 0)"
  note d = analyze_pair_fast_SomeD(5) [OF r]
  show "map_of d ''avg_cycle_duration_030bp_sec'' = Some (PyInt 0)"
    using c by (simp add: d metrics_lookup_030)
next
  assume r: "analyze_pair_fast symbol ex1 ex2 data1 data2 thresholds zero_threshold = Some d"
    and c: "map_of d ''opportunity_cycles_050bp'' = Some (PyInt 0)"
  note d = analyze_pair_fast_SomeD(5) [OF r]
  show "map_of d ''avg_cycle_duration_050bp_sec'' = Some (PyInt 0)"
    using c by (simp add: d metrics_lookup_050)
next
  assume r: "analyze_pair_fast symbol ex1 ex2 data1 data2 thresholds zero_threshold = Some d"
    and c: "map_of d ''opportunity_cycles_040bp'' = Some (PyInt 0)"
  note d = analyze_pair_fast_SomeD(5) [OF r]
  show "map_of d ''avg_cycle_duration_040bp_sec'' = Some (PyInt 0)"
    using c by (simp add: d metrics_lookup_040)
qed

theorem zero_duration_rates_witness:
  "analyze_pair_fast ''BTC/USDT'' ''A'' ''B''
      [\<lparr> timestamp = 0, bestBid = Some (Fin 100), bestAsk = Some (Fin 101) \<rparr>]
      [\<lparr> timestamp = 0, bestBid = Some (Fin 100), bestAsk = Some (Fin 101) \<rparr>] None (Fin (1 / 20))
     = Some
        [(''max_deviation_pct'', PyFloat (Fin 0)),
         (''min_deviation_pct'', PyFloat (Fin 0)),
         (''deviation_asymmetry'', PyFloat (Fin 0)),
         (''zero_crossings'', PyInt 0),
         (''zero_crossings_per_hour'', PyInt 0),
         (''zero_crossings_per_minute'', PyInt 0),
         (''opportunity_cycles_030bp'', PyInt 0),
         (''cycles_030bp_per_hour'', PyInt 0),
         (''pct_time_above_030bp'', PyFloat (Fin 0)),
         (''avg_cycle_duration_030bp_sec'', PyInt 0),
         (''pattern_break_030bp'', PyBool False),
         (''opportunity_cycles_050bp'', PyInt 0),
         (''cycles_050bp_per_hour'', PyInt 0),
         (''pct_time_above_050bp'', PyFloat (Fin 0)),
         (''avg_cycle_duration_050bp_sec'', PyInt 0),
         (''pattern_break_050bp'', PyBool False),
         (''opportunity_cycles_040bp'', PyInt 0),
         (''cycles_040bp_per_hour'', PyInt 0),
         (''pct_time_above_040bp'', PyFloat (Fin 0)),
         (''avg_cycle_duration_040bp_sec'', PyInt 0),
         (''pattern_break_040bp'', PyBool False),
         (''data_points'', PyInt 1),
         (''duration_hours'', PyFloat (Fin 0))]
   \<and> int_min (map row_timestamp (join_asof
        [\<lparr> timestamp = 0, bestBid = Some (Fin 100), bestAsk = Some (Fin 101) \<rparr>]
        [\<lparr> timestamp = 0, bestBid = Some (Fin 100), bestAsk = Some (Fin 101) \<rparr>]))
     = int_max (map row_timestamp (join_asof
        [\<lparr> timestamp = 0, bestBid = Some (Fin 100), bestAsk = Some (Fin 101) \<rparr>]
        [\<lparr> timestamp = 0, bestBid = Some (Fin 100), bestAsk = Some (Fin 101) \<rparr>]))
   \<and> analyze_body ''BTC/USDT'' ''A'' ''B''
        [\<lparr> timestamp = 0, bestBid = Some (Fin 100), bestAsk = Some (Fin 101) \<rparr>]
        [\<lparr> timestamp = 0, bestBid = Some (Fin 100), bestAsk = Some (Fin 101) \<rparr>] None (Fin (1 / 20))
       \<noteq> Inl ZeroDivisionError
   \<and> map_of
        [(''max_deviation_pct'', PyFloat (Fin 0)),
         (''min_deviation_pct'', PyFloat (Fin 0)),
         (''deviation_asymmetry'', PyFloat (Fin 0)),
         (''zero_crossings'', PyInt 0),
         (''zero_crossings_per_hour'', PyInt 0),
         (''zero_crossings_per_minute'', PyInt 0),
         (''opportunity_cycles_030bp'', PyInt 0),
         (''cycles_030bp_per_hour'', PyInt 0),
         (''pct_time_above_030bp'', PyFloat (Fin 0)),
         (''avg_cycle_duration_030bp_sec'', PyInt 0),
         (''pattern_break_030bp'', PyBool False),
         (''opportunity_cycles_050bp'', PyInt 0),
         (''cycles_050bp_per_hour'', PyInt 0),
         (''pct_time_above_050bp'', PyFloat (Fin 0)),
         (''avg_cycle_duration_050bp_sec'', PyInt 0),
         (''pattern_break_050bp'', PyBool False),
         (''opportunity_cycles_040bp'', PyInt 0),
         (''cycles_040bp_per_hour'', PyInt 0),
         (''pct_time_above_040bp'', PyFloat (Fin 0)),
         (''avg_cycle_duration_040bp_sec'', PyInt 0),
         (''pattern_break_040bp'', PyBool False),
         (''data_points'', PyInt 1),
         (''duration_hours'', PyFloat (Fin 0))] ''cycles_040bp_per_hour'' = Some (PyInt 0)"
proof -
  let ?d1 = "[\<lparr> timestamp = 0, bestBid = Some (Fin 100), bestAsk = Some (Fin 101) \<rparr>]"
  let ?dict = "[(''max_deviation_pct'', PyFloat (Fin 0)),
         (''min_deviation_pct'', PyFloat (Fin 0)),
         (''deviation_asymmetry'', PyFloat (Fin 0)),
         (''zero_crossings'', PyInt 0),
         (''zero_crossings_per_hour'', PyInt 0),
         (''zero_crossings_per_minute'', PyInt 0),
         (''opportunity_cycles_030bp'', PyInt 0),
         (''cycles_030bp_per_hour'', PyInt 0),
         (''pct_time_above_030bp'', PyFloat (Fin 0)),
         (''avg_cycle_duration_030bp_sec'', PyInt 0),
         (''pattern_break_030bp'', PyBool False),
         (''opportunity_cycles_050bp'', PyInt 0),
         (''cycles_050bp_per_hour'', PyInt 0),
         (''pct_time_above_050bp'', PyFloat (Fin 0)),
         (''avg_cycle_duration_050bp_sec'', PyInt 0),
         (''pattern_break_050bp'', PyBool False),
         (''opportunity_cycles_040bp'', PyInt 0),
         (''cycles_040bp_per_hour'', PyInt 0),
         (''pct_time_above_040bp'', PyFloat (Fin 0)),
         (''avg_cycle_duration_040bp_sec'', PyInt 0),
         (''pattern_break_040bp'', PyBool False),
         (''data_points'', PyInt 1),
         (''duration_hours'', PyFloat (Fin 0))]"
  have r: "analyze_pair_fast ''BTC/USDT'' ''A'' ''B'' ?d1 ?d1 None (Fin (1 / 20)) = Some ?dict"
    by code_simp
  have z: "int_min (map row_timestamp (join_asof ?d1 ?d1))
             = int_max (map row_timestamp (join_asof ?d1 ?d1))"
    by code_simp
  from zero_duration_rates [of "''BTC/USDT''" "''A''" "''B''" ?d1 ?d1 None "Fin (1 / 20)" ?dict] r z
  have "analyze_body ''BTC/USDT'' ''A'' ''B'' ?d1 ?d1 None (Fin (1 / 20)) \<noteq> Inl ZeroDivisionError
      \<and> map_of ?dict ''cycles_040bp_per_hour'' = Some (PyInt 0)"
    by blast
  with r z show ?thesis by blast
qed

lemma asof_match_bid:
  "Option.bind (asof_match right_df t) bestBid
     = (let xs = map snd (filter (\<lambda>p. fst p \<le> t) (map (\<lambda>b. (timestamp b, bestBid b)) right_df))
        in if xs = [] then None else last xs)"
proof -
  have m: "map snd (filter (\<lambda>p. fst p \<le> t) (map (\<lambda>b. (timestamp b, bestBid b)) right_df))
             = map bestBid (filter (\<lambda>b. timestamp b \<le> t) right_df)"
    by (simp add: filter_map comp_def)
  show ?thesis
    unfolding m Let_def asof_match_def
    by (cases "filter (\<lambda>b. timestamp b \<le> t) right_df") (simp_all add: last_map)
qed

lemma ratio_column_join:
  "ratio_column (join_asof left_df right_df)
     = map (\<lambda>p. lift2 fdiv (snd p)
              (let xs = map snd (filter (\<lambda>q. fst q \<le> fst p)
                                   (map (\<lambda>b. (timestamp b, bestBid b)) right_df))
               in if xs = [] then None else last xs))
           (map (\<lambda>a. (timestamp a, bestBid a)) left_df)"
  by (simp add: ratio_column_def join_asof_def comp_def asof_match_bid Let_def)

lemma row_timestamp_join:
  "map row_timestamp (join_asof left_df right_df) = map fst (map (\<lambda>a. (timestamp a, bestBid a)) left_df)"
  by (simp add: join_asof_def comp_def Let_def)

lemma metrics_of_cong:
  "map row_timestamp joined = map row_timestamp joined' \<Longrightarrow>
     metrics_of joined dev ths z = metrics_of joined' dev ths z"
proof -
  assume e: "map row_timestamp joined = map row_timestamp joined'"
  then have "length joined = length joined'"
    by (rule map_eq_imp_length_eq)
  moreover have "dh_of joined = dh_of joined'"
    by (simp add: dh_of_def e)
  ultimately show ?thesis
    by (simp add: metrics_of_def)
qed

text \<open>
  C9: the result of \<open>analyze_pair_fast\<close> depends only on the timestamp and bestBid columns
  of the two inputs: two calls whose inputs agree on these columns, and differ at most in
  the bestAsk values, return the same result.
\<close>

theorem analyze_pair_fast_ignores_asks:
  "map (\<lambda>a. (timestamp a, bestBid a)) data1 = map (\<lambda>a. (timestamp a, bestBid a)) data1'
   \<and> map (\<lambda>a. (timestamp a, bestBid a)) data2 = map (\<lambda>a. (timestamp a, bestBid a)) data2' \<longrightarrow>
     analyze_pair_fast symbol ex1 ex2 data1 data2 thresholds zero_threshold
       = analyze_pair_fast symbol ex1 ex2 data1' data2' thresholds zero_threshold"
proof
  assume h: "map (\<lambda>a. (timestamp a, bestBid a)) data1 = map (\<lambda>a. (timestamp a, bestBid a)) data1'
   \<and> map (\<lambda>a. (timestamp a, bestBid a)) data2 = map (\<lambda>a. (timestamp a, bestBid a)) data2'"
  have r: "ratio_column (join_asof data1 data2) = ratio_column (join_asof data1' data2')"
    using h by (simp add: ratio_column_join)
  have t: "map row_timestamp (join_asof data1 data2) = map row_timestamp (join_asof data1' data2')"
    using h by (simp add: row_timestamp_join)
  have e: "join_asof data1 data2 = [] \<longleftrightarrow> join_asof data1' data2' = []"
    using t by (metis map_is_Nil_conv)
  have m: "\<And>dev ths. metrics_of (join_asof data1 data2) dev ths zero_threshold
             = metrics_of (join_asof data1' data2') dev ths zero_threshold"
    using t by (rule metrics_of_cong)
  have "analyze_body symbol ex1 ex2 data1 data2 thresholds zero_threshold
          = analyze_body symbol ex1 ex2 data1' data2' thresholds zero_threshold"
    unfolding analyze_body_closed Let_def r m using e by simp
  then show "analyze_pair_fast symbol ex1 ex2 data1 data2 thresholds zero_threshold
       = analyze_pair_fast symbol ex1 ex2 data1' data2' thresholds zero_threshold"
    by (simp add: analyze_pair_fast_def)
qed

theorem analyze_pair_fast_ignores_asks_witness:
  "analyze_pair_fast ''BTC/USDT'' ''A'' ''B''
      [\<lparr> timestamp = 0, bestBid = Some (Fin 100), bestAsk = Some (Fin 101) \<rparr>,
       \<lparr> timestamp = 60000000, bestBid = Some (Fin (2003 / 20)), bestAsk = Some (Fin 101) \<rparr>]
      [\<lparr> timestamp = 0, bestBid = Some (Fin 100), bestAsk = Some (Fin 101) \<rparr>]
      None (Fin (1 / 20))
   = analyze_pair_fast ''BTC/USDT'' ''A'' ''B''
      [\<lparr> timestamp = 0, bestBid = Some (Fin 100), bestAsk = Some (Fin 250) \<rparr>,
       \<lparr> timestamp = 60000000, bestBid = Some (Fin (2003 / 20)), bestAsk = None \<rparr>]
      [\<lparr> timestamp = 0, bestBid = Some (Fin 100), bestAsk = Some (Fin 7) \<rparr>]
      None (Fin (1 / 20))
   \<and> analyze_pair_fast ''BTC/USDT'' ''A'' ''B''
      [\<lparr> timestamp = 0, bestBid = Some (Fin 100), bestAsk = Some (Fin 101) \<rparr>,
       \<lparr> timestamp = 60000000, bestBid = Some (Fin (2003 / 20)), bestAsk = Some (Fin 101) \<rparr>]
      [\<lparr> timestamp = 0, bestBid = Some (Fin 100), bestAsk = Some (Fin 101) \<rparr>]
      None (Fin (1 / 20)) \<noteq> None"
proof -
  have ne: "analyze_pair_fast ''BTC/USDT'' ''A'' ''B''
      [\<lparr> timestamp = 0, bestBid = Some (Fin 100), bestAsk = Some (Fin 101) \<rparr>,
       \<lparr> timestamp = 60000000, bestBid = Some (Fin (2003 / 20)), bestAsk = Some (Fin 101) \<rparr>]
      [\<lparr> timestamp = 0, bestBid = Some (Fin 100), bestAsk = Some (Fin 101) \<rparr>]
      None (Fin (1 / 20)) \<noteq> None"
    by code_simp
  show ?thesis
    using ne analyze_pair_fast_ignores_asks
      [of "[\<lparr> timestamp = 0, bestBid = Some (Fin 100), bestAsk = Some (Fin 101) \<rparr>,
            \<lparr> timestamp = 60000000, bestBid = Some (Fin (2003 / 20)), bestAsk = Some (Fin 101) \<rparr>]"
          "[\<lparr> timestamp = 0, bestBid = Some (Fin 100), bestAsk = Some (Fin 250) \<rparr>,
            \<lparr> timestamp = 60000000, bestBid = Some (Fin (2003 / 20)), bestAsk = None \<rparr>]"
          "[\<lparr> timestamp = 0, bestBid = Some (Fin 100), bestAsk = Some (Fin 101) \<rparr>]"
          "[\<lparr> timestamp = 0, bestBid = Some (Fin 100), bestAsk = Some (Fin 7) \<rparr>]"
          "''BTC/USDT''" "''A''" "''B''" None "Fin (1 / 20)"]
    by simp
qed

lemma sorted_map_le_last:
  "sorted (map f xs) \<Longrightarrow> x \<in> set xs \<Longrightarrow> f x \<le> f (last xs)"
  by (induction xs) (auto split: if_splits)

lemma sorted_map_filter:
  "sorted (map f xs) \<Longrightarrow> sorted (map f (filter P xs))"
  by (induction xs) auto

lemma asof_match_None:
  "asof_match right_df t = None \<longleftrightarrow> (\<forall>b \<in> set right_df. t < timestamp b)"
proof -
  have "asof_match right_df t = None \<longleftrightarrow> filter (\<lambda>b. timestamp b \<le> t) right_df = []"
    by (simp add: asof_match_def split: list.splits)
  also have "\<dots> \<longleftrightarrow> (\<forall>b \<in> set right_df. t < timestamp b)"
    by (auto simp: filter_empty_conv not_le)
  finally show ?thesis .
qed

lemma asof_match_Some:
  assumes "asof_match right_df t = Some b"
  shows "b \<in> set right_df" and "timestamp b \<le> t"
    and "sorted (map timestamp right_df) \<Longrightarrow> b' \<in> set right_df \<Longrightarrow> timestamp b' \<le> t
           \<Longrightarrow> timestamp b' \<le> timestamp b"
proof -
  let ?f = "filter (\<lambda>b. timestamp b \<le> t) right_df"
  from assms have ne: "?f \<noteq> []" and b: "b = last ?f"
    by (auto simp: asof_match_def split: list.splits)
  from ne b have "b \<in> set ?f"
    using last_in_set by blast
  then show "b \<in> set right_df" and "timestamp b \<le> t"
    by auto
  assume s: "sorted (map timestamp right_df)" and m: "b' \<in> set right_df" and le: "timestamp b' \<le> t"
  from s have "sorted (map timestamp ?f)"
    by (rule sorted_map_filter)
  moreover from m le have "b' \<in> set ?f"
    by simp
  ultimately show "timestamp b' \<le> timestamp b"
    unfolding b by (rule sorted_map_le_last)
qed

text \<open>
  C4: the synchronized series has one row per row of the anchor series, in the same order
  and with the anchor's timestamps (so it is as long as the anchor series and sorted when
  the anchor series is); row \<open>i\<close> carries the bids and asks of anchor row \<open>i\<close> and of the
  row of the second series chosen by the backward as-of rule: a row whose timestamp is not
  later than the anchor's, the latest such row when the second series is sorted, and nulls
  exactly when every row of the second series is later.
\<close>

theorem join_asof_backward:
  "length (join_asof left_df right_df) = length left_df
   \<and> map row_timestamp (join_asof left_df right_df) = map timestamp left_df
   \<and> (sorted (map timestamp left_df) \<longrightarrow> sorted (map row_timestamp (join_asof left_df right_df)))
   \<and> (\<forall>i < length left_df.
         bid_ex1 (join_asof left_df right_df ! i) = bestBid (left_df ! i)
       \<and> ask_ex1 (join_asof left_df right_df ! i) = bestAsk (left_df ! i)
       \<and> (case asof_match right_df (timestamp (left_df ! i)) of
            None \<Rightarrow> (\<forall>b \<in> set right_df. timestamp (left_df ! i) < timestamp b)
                   \<and> bid_ex2 (join_asof left_df right_df ! i) = None
                   \<and> ask_ex2 (join_asof left_df right_df ! i) = None
          | Some b \<Rightarrow> b \<in> set right_df
                   \<and> timestamp b \<le> timestamp (left_df ! i)
                   \<and> (sorted (map timestamp right_df) \<longrightarrow>
                        (\<forall>b' \<in> set right_df. timestamp b' \<le> timestamp (left_df ! i)
                            \<longrightarrow> timestamp b' \<le> timestamp b))
                   \<and> bid_ex2 (join_asof left_df right_df ! i) = bestBid b
                   \<and> ask_ex2 (join_asof left_df right_df ! i) = bestAsk b))"
proof -
  have len: "length (join_asof left_df right_df) = length left_df"
    by (simp add: join_asof_def)
  have ts: "map row_timestamp (join_asof left_df right_df) = map timestamp left_df"
    by (simp add: join_asof_def comp_def Let_def)
  have row: "bid_ex1 (join_asof left_df right_df ! i) = bestBid (left_df ! i)
       \<and> ask_ex1 (join_asof left_df right_df ! i) = bestAsk (left_df ! i)
       \<and> (case asof_match right_df (timestamp (left_df ! i)) of
            None \<Rightarrow> (\<forall>b \<in> set right_df. timestamp (left_df ! i) < timestamp b)
                   \<and> bid_ex2 (join_asof left_df right_df ! i) = None
                   \<and> ask_ex2 (join_asof left_df right_df ! i) = None
          | Some b \<Rightarrow> b \<in> set right_df
                   \<and> timestamp b \<le> timestamp (left_df ! i)
                   \<and> (sorted (map timestamp right_df) \<longrightarrow>
                        (\<forall>b' \<in> set right_df. timestamp b' \<le> timestamp (left_df ! i)
                            \<longrightarrow> timestamp b' \<le> timestamp b))
                   \<and> bid_ex2 (join_asof left_df right_df ! i) = bestBid b
                   \<and> ask_ex2 (join_asof left_df right_df ! i) = bestAsk b)"
    if i: "i < length left_df" for i
  proof (cases "asof_match right_df (timestamp (left_df ! i))")
    case None
    then show ?thesis
      using i by (simp add: join_asof_def Let_def asof_match_None [symmetric])
  next
    case (Some b)
    then show ?thesis
      using i asof_match_Some [OF Some]
      by (simp add: join_asof_def Let_def)
  qed
  show ?thesis
    using len ts row by simp
qed

theorem join_asof_backward_witness:
  "sorted (map timestamp
      [\<lparr> timestamp = 10, bestBid = Some (Fin 100), bestAsk = Some (Fin 101) \<rparr>,
       \<lparr> timestamp = 20, bestBid = Some (Fin 102), bestAsk = Some (Fin 103) \<rparr>])
   \<and> sorted (map timestamp
      [\<lparr> timestamp = 12, bestBid = Some (Fin 1), bestAsk = Some (Fin 2) \<rparr>,
       \<lparr> timestamp = 15, bestBid = Some (Fin 3), bestAsk = Some (Fin 4) \<rparr>,
       \<lparr> timestamp = 25, bestBid = Some (Fin 5), bestAsk = Some (Fin 6) \<rparr>])
   \<and> join_asof
      [\<lparr> timestamp = 10, bestBid = Some (Fin 100), bestAsk = Some (Fin 101) \<rparr>,
       \<lparr> timestamp = 20, bestBid = Some (Fin 102), bestAsk = Some (Fin 103) \<rparr>]
      [\<lparr> timestamp = 12, bestBid = Some (Fin 1), bestAsk = Some (Fin 2) \<rparr>,
       \<lparr> timestamp = 15, bestBid = Some (Fin 3), bestAsk = Some (Fin 4) \<rparr>,
       \<lparr> timestamp = 25, bestBid = Some (Fin 5), bestAsk = Some (Fin 6) \<rparr>]
     = [\<lparr> row_timestamp = 10, bid_ex1 = Some (Fin 100), ask_ex1 = Some (Fin 101),
          bid_ex2 = None, ask_ex2 = None \<rparr>,
        \<lparr> row_timestamp = 20, bid_ex1 = Some (Fin 102), ask_ex1 = Some (Fin 103),
          bid_ex2 = Some (Fin 3), ask_ex2 = Some (Fin 4) \<rparr>]
   \<and> sorted (map row_timestamp (join_asof
      [\<lparr> timestamp = 10, bestBid = Some (Fin 100), bestAsk = Some (Fin 101) \<rparr>,
       \<lparr> timestamp = 20, bestBid = Some (Fin 102), bestAsk = Some (Fin 103) \<rparr>]
      [\<lparr> timestamp = 12, bestBid = Some (Fin 1), bestAsk = Some (Fin 2) \<rparr>,
       \<lparr> timestamp = 15, bestBid = Some (Fin 3), bestAsk = Some (Fin 4) \<rparr>,
       \<lparr> timestamp = 25, bestBid = Some (Fin 5), bestAsk = Some (Fin 6) \<rparr>]))"
proof -
  let ?A = "[\<lparr> timestamp = 10, bestBid = Some (Fin 100), bestAsk = Some (Fin 101) \<rparr>,
       \<lparr> timestamp = 20, bestBid = Some (Fin 102), bestAsk = Some (Fin 103) \<rparr>]"
  let ?B = "[\<lparr> timestamp = 12, bestBid = Some (Fin 1), bestAsk = Some (Fin 2) \<rparr>,
       \<lparr> timestamp = 15, bestBid = Some (Fin 3), bestAsk = Some (Fin 4) \<rparr>,
       \<lparr> timestamp = 25, bestBid = Some (Fin 5), bestAsk = Some (Fin 6) \<rparr>]"
  have sa: "sorted (map timestamp ?A)" and sb: "sorted (map timestamp ?B)"
    by simp_all
  have j: "join_asof ?A ?B
     = [\<lparr> row_timestamp = 10, bid_ex1 = Some (Fin 100), ask_ex1 = Some (Fin 101),
          bid_ex2 = None, ask_ex2 = None \<rparr>,
        \<lparr> row_timestamp = 20, bid_ex1 = Some (Fin 102), ask_ex1 = Some (Fin 103),
          bid_ex2 = Some (Fin 3), ask_ex2 = Some (Fin 4) \<rparr>]"
    by (simp add: join_asof_def asof_match_def)
  have "sorted (map row_timestamp (join_asof ?A ?B))"
    using join_asof_backward [of ?A ?B] sa by blast
  with sa sb j show ?thesis by blast
qed

lemma pl_lt_zero [simp]: "pl_lt x (Fin 0) = flt x (Fin 0)"
  by (cases x) (simp_all add: pl_lt_def)

lemma length_shift1 [simp]: "length (shift1 xs) = length xs"
  by (cases xs) (simp_all add: shift1_def)

lemma shift1_nth:
  "i < length xs \<Longrightarrow> shift1 xs ! i = (if i = 0 then None else xs ! (i - 1))"
  by (cases i) (auto simp: shift1_def nth_butlast)

lemma length_crossed_column [simp]: "length (crossed_column dev) = length dev"
  by (simp add: crossed_column_def Let_def)

lemma crossed_column_nth:
  assumes "i < length dev"
  shows "crossed_column dev ! i = Some True \<longleftrightarrow>
           1 \<le> i \<and> (\<exists>a b. dev ! i = Some a \<and> dev ! (i - 1) = Some b
                        \<and> flt (fmul (fsign a) (fsign b)) (Fin 0))"
proof (cases "i = 0")
  case True
  then show ?thesis using assms
    by (simp add: crossed_column_def Let_def shift1_nth lift2_def split: option.splits)
next
  case False
  then have p: "i - 1 < length dev" using assms by simp
  show ?thesis using assms False p
    by (auto simp: crossed_column_def Let_def shift1_nth lift2_def split: option.splits)
qed

lemma zero_crossings_card:
  "zero_crossings_of dev
     = card {i. 1 \<le> i \<and> i < length dev
               \<and> (\<exists>a b. dev ! i = Some a \<and> dev ! (i - 1) = Some b
                     \<and> flt (fmul (fsign a) (fsign b)) (Fin 0))}"
proof -
  have "zero_crossings_of dev
          = card {i. i < length (crossed_column dev) \<and> crossed_column dev ! i = Some True}"
    by (simp add: zero_crossings_of_def bool_sum_def length_filter_conv_card)
  also have "{i. i < length (crossed_column dev) \<and> crossed_column dev ! i = Some True}
          = {i. 1 \<le> i \<and> i < length dev
               \<and> (\<exists>a b. dev ! i = Some a \<and> dev ! (i - 1) = Some b
                     \<and> flt (fmul (fsign a) (fsign b)) (Fin 0))}"
    using crossed_column_nth [of _ dev] by auto
  finally show ?thesis .
qed

lemma fsign_zero_product:
  "\<not> flt (fmul (Fin 0) (fsign b)) (Fin 0)" "\<not> flt (fmul (fsign a) (Fin 0)) (Fin 0)"
  by (cases b; simp) (cases a; simp)

lemma zero_crossings_through_zero:
  "zero_crossings_of [Some a, Some (Fin 0), Some c] = 0"
  by (simp add: zero_crossings_of_def crossed_column_def shift1_def bool_sum_def lift2_def
        fsign_zero_product)


text \<open>
  C3: \<open>zero_crossings\<close> is the number of rows \<open>i \<ge> 1\<close> at which both deviations are
  defined and \<open>sign(deviation[i]) * sign(deviation[i-1]) < 0\<close>; each such row counts
  once, the first row never counts, and a pass that lands exactly on zero between two
  neighbours is counted neither at the zero row nor at the row after it.
\<close>

theorem zero_crossings_sign_flips:
  "zero_crossings_of deviation
     = card {i. 1 \<le> i \<and> i < length deviation
               \<and> (\<exists>a b. deviation ! i = Some a \<and> deviation ! (i - 1) = Some b
                     \<and> flt (fmul (fsign a) (fsign b)) (Fin 0))}
   \<and> zero_crossings_of [x] = 0
   \<and> zero_crossings_of [Some a, Some (Fin 0), Some c] = 0
   \<and> zero_crossings_of (deviation_column (ratio_column (join_asof data1 data2)))
        \<le> length data1 - 1
   \<and> (analyze_pair_fast symbol ex1 ex2 data1 data2 thresholds zero_threshold = Some d \<longrightarrow>
        map_of d ''zero_crossings''
          = Some (PyInt (int (zero_crossings_of
                (deviation_column (ratio_column (join_asof data1 data2)))))))"
proof -
  have one: "zero_crossings_of [x] = 0"
    by (simp add: zero_crossings_of_def crossed_column_def shift1_def bool_sum_def lift2_def
          split: option.splits)
  have bound: "zero_crossings_of dev \<le> length dev - 1" for dev
  proof -
    have "{i. 1 \<le> i \<and> i < length dev
               \<and> (\<exists>a b. dev ! i = Some a \<and> dev ! (i - 1) = Some b
                     \<and> flt (fmul (fsign a) (fsign b)) (Fin 0))} \<subseteq> {1..<length dev}"
      by auto
    then have "zero_crossings_of dev \<le> card {1..<length dev}"
      unfolding zero_crossings_card by (intro card_mono) simp_all
    then show ?thesis by simp
  qed
  have len: "length (deviation_column (ratio_column (join_asof data1 data2))) = length data1"
    by (simp add: join_asof_def)
  have res: "map_of d ''zero_crossings''
          = Some (PyInt (int (zero_crossings_of
                (deviation_column (ratio_column (join_asof data1 data2))))))"
    if r: "analyze_pair_fast symbol ex1 ex2 data1 data2 thresholds zero_threshold = Some d"
    unfolding analyze_pair_fast_SomeD(5) [OF r] by (rule metrics_lookup)
  show ?thesis
    using zero_crossings_card [of deviation] one zero_crossings_through_zero [of a c]
      bound [of "deviation_column (ratio_column (join_asof data1 data2))"] len res
    by simp
qed

theorem zero_crossings_sign_flips_witness:
  "deviation_column (ratio_column (join_asof
      [\<lparr> timestamp = 0, bestBid = Some (Fin 101), bestAsk = Some (Fin 102) \<rparr>,
       \<lparr> timestamp = 60000000, bestBid = Some (Fin 99), bestAsk = Some (Fin 102) \<rparr>,
       \<lparr> timestamp = 120000000, bestBid = Some (Fin 100), bestAsk = Some (Fin 102) \<rparr>,
       \<lparr> timestamp = 180000000, bestBid = Some (Fin 101), bestAsk = Some (Fin 102) \<rparr>]
      [\<lparr> timestamp = 0, bestBid = Some (Fin 100), bestAsk = Some (Fin 101) \<rparr>]))
     = [Some (Fin 1), Some (Fin (- 1)), Some (Fin 0), Some (Fin 1)]
   \<and> zero_crossings_of [Some (Fin 1), Some (Fin (- 1)), Some (Fin 0), Some (Fin 1)] = 1
   \<and> (\<exists>d. analyze_pair_fast ''BTC/USDT'' ''A'' ''B''
      [\<lparr> timestamp = 0, bestBid = Some (Fin 101), bestAsk = Some (Fin 102) \<rparr>,
       \<lparr> timestamp = 60000000, bestBid = Some (Fin 99), bestAsk = Some (Fin 102) \<rparr>,
       \<lparr> timestamp = 120000000, bestBid = Some (Fin 100), bestAsk = Some (Fin 102) \<rparr>,
       \<lparr> timestamp = 180000000, bestBid = Some (Fin 101), bestAsk = Some (Fin 102) \<rparr>]
      [\<lparr> timestamp = 0, bestBid = Some (Fin 100), bestAsk = Some (Fin 101) \<rparr>]
      None (Fin (1 / 20)) = Some d \<and> map_of d ''zero_crossings'' = Some (PyInt 1))"
proof -
  let ?d1 = "[\<lparr> timestamp = 0, bestBid = Some (Fin 101), bestAsk = Some (Fin 102) \<rparr>,
       \<lparr> timestamp = 60000000, bestBid = Some (Fin 99), bestAsk = Some (Fin 102) \<rparr>,
       \<lparr> timestamp = 120000000, bestBid = Some (Fin 100), bestAsk = Some (Fin 102) \<rparr>,
       \<lparr> timestamp = 180000000, bestBid = Some (Fin 101), bestAsk = Some (Fin 102) \<rparr>]"
  let ?d2 = "[\<lparr> timestamp = 0, bestBid = Some (Fin 100), bestAsk = Some (Fin 101) \<rparr>]"
  have dev: "deviation_column (ratio_column (join_asof ?d1 ?d2))
     = [Some (Fin 1), Some (Fin (- 1)), Some (Fin 0), Some (Fin 1)]"
    by code_simp
  have z: "zero_crossings_of [Some (Fin 1), Some (Fin (- 1)), Some (Fin 0), Some (Fin 1)] = 1"
    by code_simp
  have "analyze_pair_fast ''BTC/USDT'' ''A'' ''B'' ?d1 ?d2 None (Fin (1 / 20)) \<noteq> None"
    by code_simp
  then obtain d where d: "analyze_pair_fast ''BTC/USDT'' ''A'' ''B'' ?d1 ?d2 None (Fin (1 / 20)) = Some d"
    by blast
  have "map_of d ''zero_crossings'' = Some (PyInt 1)"
    using d dev z zero_crossings_sign_flips [of _ _ _ _ ?d1 ?d2 "''BTC/USDT''" "''A''" "''B''" None "Fin (1 / 20)" d]
    by simp
  with d dev z show ?thesis by blast
qed

lemma fdiv_one [simp]: "fdiv x (Fin 1) = x"
  by (cases x) simp_all

lemma deviation_column_nth:
  "i < length joined \<Longrightarrow>
     deviation_column (ratio_column joined) ! i
       = lift2 fmul (lift2 fsub (lift2 fdiv (bid_ex1 (joined ! i)) (bid_ex2 (joined ! i)))
                                (Some (Fin 1)))
                    (Some (Fin 100))"
  by (simp add: deviation_column_def ratio_column_def lift2_def split: option.splits)

lemma parity_deviation:
  "x \<noteq> 0 \<Longrightarrow>
     lift2 fmul (lift2 fsub (lift2 fdiv (Some (Fin x)) (Some (Fin x))) (Some (Fin 1))) (Some (Fin 100))
       = Some (Fin 0)"
  by (simp add: lift2_def fsub_def)

lemma non_null_replicate [simp]: "non_null (replicate n (Some v)) = replicate n v"
  by (induction n) (simp_all add: non_null_def)

lemma foldl_fmax2_zero: "foldl fmax2 (Fin 0) (replicate k (Fin 0)) = Fin 0"
  by (induction k) (simp_all add: fmax2_def)

lemma foldl_fmin2_zero: "foldl fmin2 (Fin 0) (replicate k (Fin 0)) = Fin 0"
  by (induction k) (simp_all add: fmin2_def)

lemma foldl_fadd_zero: "foldl fadd (Fin 0) (replicate k (Fin 0)) = Fin 0"
  by (induction k) simp_all

lemma non_null_replicate_Suc:
  "non_null (replicate (Suc k) (Some v)) = v # replicate k v"
  by (simp add: non_null_def)

lemma series_zero_Suc:
  "series_max (replicate (Suc k) (Some (Fin 0))) = Some (Fin 0)"
  "series_min (replicate (Suc k) (Some (Fin 0))) = Some (Fin 0)"
  "series_mean (replicate (Suc k) (Some (Fin 0))) = Some (Fin 0)"
proof -
  note nn = non_null_replicate_Suc [of k "Fin 0"]
  show "series_max (replicate (Suc k) (Some (Fin 0))) = Some (Fin 0)"
    unfolding series_max_def Let_def nn by (simp add: foldl_fmax2_zero)
  show "series_min (replicate (Suc k) (Some (Fin 0))) = Some (Fin 0)"
    unfolding series_min_def Let_def nn by (simp add: foldl_fmin2_zero)
  have k: "rat_of_nat (Suc k) \<noteq> 0"
    by simp
  have "fdiv (Fin 0) (Fin (rat_of_nat (Suc k))) = Fin 0"
    using k by (simp del: of_nat_Suc)
  then show "series_mean (replicate (Suc k) (Some (Fin 0))) = Some (Fin 0)"
    unfolding series_mean_def Let_def nn by (simp add: foldl_fadd_zero del: of_nat_Suc)
qed

lemma series_zero:
  assumes "0 < n"
  shows "series_max (replicate n (Some (Fin 0))) = Some (Fin 0)"
    and "series_min (replicate n (Some (Fin 0))) = Some (Fin 0)"
    and "series_mean (replicate n (Some (Fin 0))) = Some (Fin 0)"
proof -
  obtain k where n: "n = Suc k" using assms by (cases n) auto
  show "series_max (replicate n (Some (Fin 0))) = Some (Fin 0)"
    and "series_min (replicate n (Some (Fin 0))) = Some (Fin 0)"
    and "series_mean (replicate n (Some (Fin 0))) = Some (Fin 0)"
    unfolding n by (rule series_zero_Suc)+
qed

lemma parity_deviation_column:
  assumes "\<forall>r \<in> set joined. \<exists>x. x \<noteq> 0 \<and> bid_ex1 r = Some (Fin x) \<and> bid_ex2 r = Some (Fin x)"
  shows "deviation_column (ratio_column joined) = replicate (length joined) (Some (Fin 0))"
proof (rule nth_equalityI)
  show "length (deviation_column (ratio_column joined)) = length (replicate (length joined) (Some (Fin 0)))"
    by simp
next
  fix i assume "i < length (deviation_column (ratio_column joined))"
  then have i: "i < length joined" by simp
  then have "joined ! i \<in> set joined" by simp
  with assms obtain x where "x \<noteq> 0" "bid_ex1 (joined ! i) = Some (Fin x)"
      "bid_ex2 (joined ! i) = Some (Fin x)"
    by blast
  then show "deviation_column (ratio_column joined) ! i = replicate (length joined) (Some (Fin 0)) ! i"
    using i by (simp add: deviation_column_nth parity_deviation)
qed

text \<open>
  C1: the deviation of every synchronized row is \<open>(bid_ex1 / bid_ex2 - 1.0) * 100\<close>, a
  function of that row's two bids alone, never of a mean of the series. When the two bids
  of every row are the same finite nonzero number, whatever that number is from row to
  row, every deviation is 0, and with a non-empty series and three thresholds the analysis
  returns a record whose \<open>max_deviation_pct\<close>, \<open>min_deviation_pct\<close> and
  \<open>deviation_asymmetry\<close> are 0.
\<close>

theorem deviation_from_parity:
  "(\<forall>i < length (join_asof data1 data2).
      deviation_column (ratio_column (join_asof data1 data2)) ! i
        = lift2 fmul (lift2 fsub (lift2 fdiv (bid_ex1 (join_asof data1 data2 ! i))
                                               (bid_ex2 (join_asof data1 data2 ! i)))
                                 (Some (Fin 1)))
                     (Some (Fin 100)))
   \<and> ((\<forall>r \<in> set (join_asof data1 data2).
          \<exists>x. x \<noteq> 0 \<and> bid_ex1 r = Some (Fin x) \<and> bid_ex2 r = Some (Fin x)) \<longrightarrow>
        (\<forall>v \<in> set (deviation_column (ratio_column (join_asof data1 data2))). v = Some (Fin 0))
      \<and> (data1 \<noteq> [] \<and> 3 \<le> length (thresholds_of thresholds) \<longrightarrow>
           (\<exists>d. analyze_pair_fast symbol ex1 ex2 data1 data2 thresholds zero_threshold = Some d
               \<and> map_of d ''max_deviation_pct'' = Some (PyFloat (Fin 0))
               \<and> map_of d ''min_deviation_pct'' = Some (PyFloat (Fin 0))
               \<and> map_of d ''deviation_asymmetry'' = Some (PyFloat (Fin 0)))))"
proof (intro conjI impI allI)
  fix i assume "i < length (join_asof data1 data2)"
  then show "deviation_column (ratio_column (join_asof data1 data2)) ! i
        = lift2 fmul (lift2 fsub (lift2 fdiv (bid_ex1 (join_asof data1 data2 ! i))
                                               (bid_ex2 (join_asof data1 data2 ! i)))
                                 (Some (Fin 1)))
                     (Some (Fin 100))"
    by (rule deviation_column_nth)
next
  assume h: "\<forall>r \<in> set (join_asof data1 data2).
          \<exists>x. x \<noteq> 0 \<and> bid_ex1 r = Some (Fin x) \<and> bid_ex2 r = Some (Fin x)"
  show "\<forall>v \<in> set (deviation_column (ratio_column (join_asof data1 data2))). v = Some (Fin 0)"
    by (simp add: parity_deviation_column [OF h])
next
  assume h: "\<forall>r \<in> set (join_asof data1 data2).
          \<exists>x. x \<noteq> 0 \<and> bid_ex1 r = Some (Fin x) \<and> bid_ex2 r = Some (Fin x)"
    and g: "data1 \<noteq> [] \<and> 3 \<le> length (thresholds_of thresholds)"
  let ?j = "join_asof data1 data2"
  let ?dev = "deviation_column (ratio_column ?j)"
  have dev: "?dev = replicate (length ?j) (Some (Fin 0))"
    by (rule parity_deviation_column [OF h])
  have j: "?j \<noteq> []" and n: "0 < length ?j"
    using g by simp_all
  have nn: "non_null ?dev \<noteq> []"
    unfolding dev using n by simp
  have l: "last ?dev \<noteq> None"
    unfolding dev using n by simp
  have r: "analyze_pair_fast symbol ex1 ex2 data1 data2 thresholds zero_threshold
     = Some (metrics_of ?j ?dev (thresholds_of thresholds) zero_threshold)"
    using j nn _ l by (rule analyze_pair_fast_SomeI) (use g in simp)
  have s: "series_max ?dev = Some (Fin 0)" "series_min ?dev = Some (Fin 0)"
      "series_mean ?dev = Some (Fin 0)"
    unfolding dev using n by (simp_all add: series_zero)
  show "\<exists>d. analyze_pair_fast symbol ex1 ex2 data1 data2 thresholds zero_threshold = Some d
               \<and> map_of d ''max_deviation_pct'' = Some (PyFloat (Fin 0))
               \<and> map_of d ''min_deviation_pct'' = Some (PyFloat (Fin 0))
               \<and> map_of d ''deviation_asymmetry'' = Some (PyFloat (Fin 0))"
    unfolding r by (simp add: metrics_lookup s)
qed


theorem deviation_from_parity_witness:
  "join_asof
        [\<lparr> timestamp = 0, bestBid = Some (Fin 100), bestAsk = Some (Fin 101) \<rparr>,
         \<lparr> timestamp = 60000000, bestBid = Some (Fin 110), bestAsk = Some (Fin 111) \<rparr>,
         \<lparr> timestamp = 120000000, bestBid = Some (Fin 120), bestAsk = Some (Fin 121) \<rparr>]
        [\<lparr> timestamp = 0, bestBid = Some (Fin 100), bestAsk = Some (Fin 102) \<rparr>,
         \<lparr> timestamp = 60000000, bestBid = Some (Fin 110), bestAsk = Some (Fin 112) \<rparr>,
         \<lparr> timestamp = 120000000, bestBid = Some (Fin 120), bestAsk = Some (Fin 122) \<rparr>]
     = [\<lparr> row_timestamp = 0, bid_ex1 = Some (Fin 100), ask_ex1 = Some (Fin 101),
          bid_ex2 = Some (Fin 100), ask_ex2 = Some (Fin 102) \<rparr>,
        \<lparr> row_timestamp = 60000000, bid_ex1 = Some (Fin 110), ask_ex1 = Some (Fin 111),
          bid_ex2 = Some (Fin 110), ask_ex2 = Some (Fin 112) \<rparr>,
        \<lparr> row_timestamp = 120000000, bid_ex1 = Some (Fin 120), ask_ex1 = Some (Fin 121),
          bid_ex2 = Some (Fin 120), ask_ex2 = Some (Fin 122) \<rparr>]
   \<and> 3 \<le> length (thresholds_of None)
   \<and> (\<exists>d. analyze_pair_fast ''BTC/USDT'' ''A'' ''B''
        [\<lparr> timestamp = 0, bestBid = Some (Fin 100), bestAsk = Some (Fin 101) \<rparr>,
         \<lparr> timestamp = 60000000, bestBid = Some (Fin 110), bestAsk = Some (Fin 111) \<rparr>,
         \<lparr> timestamp = 120000000, bestBid = Some (Fin 120), bestAsk = Some (Fin 121) \<rparr>]
        [\<lparr> timestamp = 0, bestBid = Some (Fin 100), bestAsk = Some (Fin 102) \<rparr>,
         \<lparr> timestamp = 60000000, bestBid = Some (Fin 110), bestAsk = Some (Fin 112) \<rparr>,
         \<lparr> timestamp = 120000000, bestBid = Some (Fin 120), bestAsk = Some (Fin 122) \<rparr>]
        None (Fin (1 / 20)) = Some d
       \<and> map_of d ''max_deviation_pct'' = Some (PyFloat (Fin 0))
       \<and> map_of d ''min_deviation_pct'' = Some (PyFloat (Fin 0))
       \<and> map_of d ''deviation_asymmetry'' = Some (PyFloat (Fin 0)))"
proof -
  let ?d1 = "[\<lparr> timestamp = 0, bestBid = Some (Fin 100), bestAsk = Some (Fin 101) \<rparr>,
         \<lparr> timestamp = 60000000, bestBid = Some (Fin 110), bestAsk = Some (Fin 111) \<rparr>,
         \<lparr> timestamp = 120000000, bestBid = Some (Fin 120), bestAsk = Some (Fin 121) \<rparr>]"
  let ?d2 = "[\<lparr> timestamp = 0, bestBid = Some (Fin 100), bestAsk = Some (Fin 102) \<rparr>,
         \<lparr> timestamp = 60000000, bestBid = Some (Fin 110), bestAsk = Some (Fin 112) \<rparr>,
         \<lparr> timestamp = 120000000, bestBid = Some (Fin 120), bestAsk = Some (Fin 122) \<rparr>]"
  have j: "join_asof ?d1 ?d2
     = [\<lparr> row_timestamp = 0, bid_ex1 = Some (Fin 100), ask_ex1 = Some (Fin 101),
          bid_ex2 = Some (Fin 100), ask_ex2 = Some (Fin 102) \<rparr>,
        \<lparr> row_timestamp = 60000000, bid_ex1 = Some (Fin 110), ask_ex1 = Some (Fin 111),
          bid_ex2 = Some (Fin 110), ask_ex2 = Some (Fin 112) \<rparr>,
        \<lparr> row_timestamp = 120000000, bid_ex1 = Some (Fin 120), ask_ex1 = Some (Fin 121),
          bid_ex2 = Some (Fin 120), ask_ex2 = Some (Fin 122) \<rparr>]"
    by (simp add: join_asof_def asof_match_def)
  have h: "\<forall>r \<in> set (join_asof ?d1 ?d2).
      \<exists>x. x \<noteq> 0 \<and> bid_ex1 r = Some (Fin x) \<and> bid_ex2 r = Some (Fin x)"
    unfolding j by simp
  have t: "3 \<le> length (thresholds_of None)"
    by (simp add: thresholds_of_def default_thresholds_def)
  have n: "?d1 \<noteq> []"
    by simp
  from deviation_from_parity [of ?d1 ?d2 None "''BTC/USDT''" "''A''" "''B''" "Fin (1 / 20)"] h t n
  have "\<exists>d. analyze_pair_fast ''BTC/USDT'' ''A'' ''B'' ?d1 ?d2 None (Fin (1 / 20)) = Some d
       \<and> map_of d ''max_deviation_pct'' = Some (PyFloat (Fin 0))
       \<and> map_of d ''min_deviation_pct'' = Some (PyFloat (Fin 0))
       \<and> map_of d ''deviation_asymmetry'' = Some (PyFloat (Fin 0))"
    by blast
  with j t show ?thesis by blast
qed








text \<open>
  C10: whatever thresholds list is passed, a returned dictionary has the same 23 keys in
  the same order; all five fields with the suffix \<open>030bp\<close> (cycle count, cycles per hour,
  share of time above, average cycle duration, pattern break) are computed from
  \<open>thresholds[0]\<close>, those with the suffix \<open>050bp\<close> from \<open>thresholds[1]\<close> and those with the
  suffix \<open>040bp\<close> from \<open>thresholds[2]\<close>, whatever the values of the thresholds are.
\<close>

theorem threshold_field_names_fixed:
  "analyze_pair_fast symbol ex1 ex2 data1 data2 thresholds zero_threshold = Some d \<longrightarrow>
     map fst d =
       [''max_deviation_pct'', ''min_deviation_pct'', ''deviation_asymmetry'', ''zero_crossings'',
        ''zero_crossings_per_hour'', ''zero_crossings_per_minute'',
        ''opportunity_cycles_030bp'', ''cycles_030bp_per_hour'', ''pct_time_above_030bp'',
        ''avg_cycle_duration_030bp_sec'', ''pattern_break_030bp'',
        ''opportunity_cycles_050bp'', ''cycles_050bp_per_hour'', ''pct_time_above_050bp'',
        ''avg_cycle_duration_050bp_sec'', ''pattern_break_050bp'',
        ''opportunity_cycles_040bp'', ''cycles_040bp_per_hour'', ''pct_time_above_040bp'',
        ''avg_cycle_duration_040bp_sec'', ''pattern_break_040bp'',
        ''data_points'', ''duration_hours'']
   \<and> (\<exists>c0 c1 c2 p0 p1 p2 ld dh r0 r1 r2 v0 v1 v2.
         count_complete_cycles
           (above_column (deviation_column (ratio_column (join_asof data1 data2)))
              (thresholds_of thresholds ! 0))
           (neutral_column (deviation_column (ratio_column (join_asof data1 data2))) zero_threshold)
           = Inr c0
       \<and> count_complete_cycles
           (above_column (deviation_column (ratio_column (join_asof data1 data2)))
              (thresholds_of thresholds ! 1))
           (neutral_column (deviation_column (ratio_column (join_asof data1 data2))) zero_threshold)
           = Inr c1
       \<and> count_complete_cycles
           (above_column (deviation_column (ratio_column (join_asof data1 data2)))
              (thresholds_of thresholds ! 2))
           (neutral_column (deviation_column (ratio_column (join_asof data1 data2))) zero_threshold)
           = Inr c2
       \<and> pct_above (above_column (deviation_column (ratio_column (join_asof data1 data2)))
              (thresholds_of thresholds ! 0)) = Inr p0
       \<and> pct_above (above_column (deviation_column (ratio_column (join_asof data1 data2)))
              (thresholds_of thresholds ! 1)) = Inr p1
       \<and> pct_above (above_column (deviation_column (ratio_column (join_asof data1 data2)))
              (thresholds_of thresholds ! 2)) = Inr p2
       \<and> last (deviation_column (ratio_column (join_asof data1 data2))) = Some ld
       \<and> duration_hours_of (join_asof data1 data2) = Inr dh
       \<and> per_hour (Fin (of_nat c0)) dh = Inr r0
       \<and> per_hour (Fin (of_nat c1)) dh = Inr r1
       \<and> per_hour (Fin (of_nat c2)) dh = Inr r2
       \<and> avg_cycle_duration dh p0 c0 = Inr v0
       \<and> avg_cycle_duration dh p1 c1 = Inr v1
       \<and> avg_cycle_duration dh p2 c2 = Inr v2
       \<and> map_of d ''opportunity_cycles_030bp'' = Some (PyInt (int c0))
       \<and> map_of d ''opportunity_cycles_050bp'' = Some (PyInt (int c1))
       \<and> map_of d ''opportunity_cycles_040bp'' = Some (PyInt (int c2))
       \<and> map_of d ''pct_time_above_030bp'' = Some (PyFloat p0)
       \<and> map_of d ''pct_time_above_050bp'' = Some (PyFloat p1)
       \<and> map_of d ''pct_time_above_040bp'' = Some (PyFloat p2)
       \<and> map_of d ''pattern_break_030bp'' = Some (PyBool (fgt (fabs ld) (thresholds_of thresholds ! 0)))
       \<and> map_of d ''pattern_break_050bp'' = Some (PyBool (fgt (fabs ld) (thresholds_of thresholds ! 1)))
       \<and> map_of d ''pattern_break_040bp'' = Some (PyBool (fgt (fabs ld) (thresholds_of thresholds ! 2)))
       \<and> map_of d ''cycles_030bp_per_hour'' = Some r0
       \<and> map_of d ''cycles_050bp_per_hour'' = Some r1
       \<and> map_of d ''cycles_040bp_per_hour'' = Some r2
       \<and> map_of d ''avg_cycle_duration_030bp_sec'' = Some v0
       \<and> map_of d ''avg_cycle_duration_050bp_sec'' = Some v1
       \<and> map_of d ''avg_cycle_duration_040bp_sec'' = Some v2)"
  (is "?R \<longrightarrow> ?K \<and> ?E")
proof (intro impI conjI)
  assume r: ?R
  note d = analyze_pair_fast_SomeD(5) [OF r]
  show ?K
    unfolding d by (rule metrics_keys)
next
  assume r: ?R
  let ?j = "join_asof data1 data2"
  let ?dev = "deviation_column (ratio_column ?j)"
  let ?ths = "thresholds_of thresholds"
  note d = analyze_pair_fast_SomeD(5) [OF r]
  note nn = analyze_pair_fast_SomeD(2) [OF r]
  note j = analyze_pair_fast_SomeD(1) [OF r]
  from analyze_pair_fast_SomeD(4) [OF r] obtain ld where ld: "last ?dev = Some ld"
    by blast
  have c: "\<And>t. count_complete_cycles (above_column ?dev t) (neutral_column ?dev zero_threshold)
              = Inr (cycles_of ?dev t zero_threshold)"
    by (rule count_cycles_columns)
  have p: "\<And>t. pct_above (above_column ?dev t) = Inr (pct_of ?dev t)"
    using nn by (rule pct_above_eq)
  have dh: "duration_hours_of ?j = Inr (dh_of ?j)"
    using j by (rule duration_hours_of_eq)
  have rt: "\<And>x. per_hour x (dh_of ?j) = Inr (rate_of x (dh_of ?j))"
    by (simp add: per_hour_eq rate_of_def)
  have av: "\<And>q n. avg_cycle_duration (dh_of ?j) q n = Inr (avg_of (dh_of ?j) q n)"
    by (simp add: avg_cycle_duration_eq avg_of_def)
  have l0: "map_of d ''opportunity_cycles_030bp'' = Some (PyInt (int (cycles_of ?dev (?ths ! 0) zero_threshold)))"
    "map_of d ''pct_time_above_030bp'' = Some (PyFloat (pct_of ?dev (?ths ! 0)))"
    "map_of d ''pattern_break_030bp'' = Some (PyBool (fgt (fabs ld) (?ths ! 0)))"
    "map_of d ''cycles_030bp_per_hour''
       = Some (rate_of (Fin (of_nat (cycles_of ?dev (?ths ! 0) zero_threshold))) (dh_of ?j))"
    "map_of d ''avg_cycle_duration_030bp_sec''
       = Some (avg_of (dh_of ?j) (pct_of ?dev (?ths ! 0)) (cycles_of ?dev (?ths ! 0) zero_threshold))"
    unfolding d by (simp_all add: metrics_lookup_030 ld)
  have l1: "map_of d ''opportunity_cycles_050bp'' = Some (PyInt (int (cycles_of ?dev (?ths ! 1) zero_threshold)))"
    "map_of d ''pct_time_above_050bp'' = Some (PyFloat (pct_of ?dev (?ths ! 1)))"
    "map_of d ''pattern_break_050bp'' = Some (PyBool (fgt (fabs ld) (?ths ! 1)))"
    "map_of d ''cycles_050bp_per_hour''
       = Some (rate_of (Fin (of_nat (cycles_of ?dev (?ths ! 1) zero_threshold))) (dh_of ?j))"
    "map_of d ''avg_cycle_duration_050bp_sec''
       = Some (avg_of (dh_of ?j) (pct_of ?dev (?ths ! 1)) (cycles_of ?dev (?ths ! 1) zero_threshold))"
    unfolding d by (simp_all add: metrics_lookup_050 ld)
  have l2: "map_of d ''opportunity_cycles_040bp'' = Some (PyInt (int (cycles_of ?dev (?ths ! 2) zero_threshold)))"
    "map_of d ''pct_time_above_040bp'' = Some (PyFloat (pct_of ?dev (?ths ! 2)))"
    "map_of d ''pattern_break_040bp'' = Some (PyBool (fgt (fabs ld) (?ths ! 2)))"
    "map_of d ''cycles_040bp_per_hour''
       = Some (rate_of (Fin (of_nat (cycles_of ?dev (?ths ! 2) zero_threshold))) (dh_of ?j))"
    "map_of d ''avg_cycle_duration_040bp_sec''
       = Some (avg_of (dh_of ?j) (pct_of ?dev (?ths ! 2)) (cycles_of ?dev (?ths ! 2) zero_threshold))"
    unfolding d by (simp_all add: metrics_lookup_040 ld)
  show ?E
    by (intro exI conjI) (rule c p ld dh rt av l0 l1 l2)+
qed

theorem threshold_field_names_fixed_witness:
  "analyze_pair_fast ''BTC/USDT'' ''A'' ''B''
      [\<lparr> timestamp = 0, bestBid = Some (Fin 100), bestAsk = Some (Fin 101) \<rparr>,
       \<lparr> timestamp = 60000000, bestBid = Some (Fin (2003 / 20)), bestAsk = Some (Fin 101) \<rparr>,
       \<lparr> timestamp = 120000000, bestBid = Some (Fin 100), bestAsk = Some (Fin 101) \<rparr>]
      [\<lparr> timestamp = 0, bestBid = Some (Fin 100), bestAsk = Some (Fin 101) \<rparr>]
      (Some [Fin (1 / 10), Fin (1 / 5), Fin (3 / 10)]) (Fin (1 / 20))
     = Some
        [(''max_deviation_pct'', PyFloat (Fin (3 / 20))),
         (''min_deviation_pct'', PyFloat (Fin 0)),
         (''deviation_asymmetry'', PyFloat (Fin (1 / 20))),
         (''zero_crossings'', PyInt 0),
         (''zero_crossings_per_hour'', PyFloat (Fin 0)),
         (''zero_crossings_per_minute'', PyFloat (Fin 0)),
         (''opportunity_cycles_030bp'', PyInt 1),
         (''cycles_030bp_per_hour'', PyFloat (Fin 30)),
         (''pct_time_above_030bp'', PyFloat (Fin (100 / 3))),
         (''avg_cycle_duration_030bp_sec'', PyFloat (Fin 40)),
         (''pattern_break_030bp'', PyBool False),
         (''opportunity_cycles_050bp'', PyInt 0),
         (''cycles_050bp_per_hour'', PyFloat (Fin 0)),
         (''pct_time_above_050bp'', PyFloat (Fin 0)),
         (''avg_cycle_duration_050bp_sec'', PyInt 0),
         (''pattern_break_050bp'', PyBool False),
         (''opportunity_cycles_040bp'', PyInt 0),
         (''cycles_040bp_per_hour'', PyFloat (Fin 0)),
         (''pct_time_above_040bp'', PyFloat (Fin 0)),
         (''avg_cycle_duration_040bp_sec'', PyInt 0),
         (''pattern_break_040bp'', PyBool False),
         (''data_points'', PyInt 3),
         (''duration_hours'', PyFloat (Fin (1 / 30)))]
   \<and> count_complete_cycles
        (above_column (deviation_column (ratio_column (join_asof
      [\<lparr> timestamp = 0, bestBid = Some (Fin 100), bestAsk = Some (Fin 101) \<rparr>,
       \<lparr> timestamp = 60000000, bestBid = Some (Fin (2003 / 20)), bestAsk = Some (Fin 101) \<rparr>,
       \<lparr> timestamp = 120000000, bestBid = Some (Fin 100), bestAsk = Some (Fin 101) \<rparr>]
      [\<lparr> timestamp = 0, bestBid = Some (Fin 100), bestAsk = Some (Fin 101) \<rparr>]))) (Fin (1 / 10)))
        (neutral_column (deviation_column (ratio_column (join_asof
      [\<lparr> timestamp = 0, bestBid = Some (Fin 100), bestAsk = Some (Fin 101) \<rparr>,
       \<lparr> timestamp = 60000000, bestBid = Some (Fin (2003 / 20)), bestAsk = Some (Fin 101) \<rparr>,
       \<lparr> timestamp = 120000000, bestBid = Some (Fin 100), bestAsk = Some (Fin 101) \<rparr>]
      [\<lparr> timestamp = 0, bestBid = Some (Fin 100), bestAsk = Some (Fin 101) \<rparr>]))) (Fin (1 / 20))) = Inr 1
   \<and> count_complete_cycles
        (above_column (deviation_column (ratio_column (join_asof
      [\<lparr> timestamp = 0, bestBid = Some (Fin 100), bestAsk = Some (Fin 101) \<rparr>,
       \<lparr> timestamp = 60000000, bestBid = Some (Fin (2003 / 20)), bestAsk = Some (Fin 101) \<rparr>,
       \<lparr> timestamp = 120000000, bestBid = Some (Fin 100), bestAsk = Some (Fin 101) \<rparr>]
      [\<lparr> timestamp = 0, bestBid = Some (Fin 100), bestAsk = Some (Fin 101) \<rparr>]))) (Fin (1 / 5)))
        (neutral_column (deviation_column (ratio_column (join_asof
      [\<lparr> timestamp = 0, bestBid = Some (Fin 100), bestAsk = Some (Fin 101) \<rparr>,
       \<lparr> timestamp = 60000000, bestBid = Some (Fin (2003 / 20)), bestAsk = Some (Fin 101) \<rparr>,
       \<lparr> timestamp = 120000000, bestBid = Some (Fin 100), bestAsk = Some (Fin 101) \<rparr>]
      [\<lparr> timestamp = 0, bestBid = Some (Fin 100), bestAsk = Some (Fin 101) \<rparr>]))) (Fin (1 / 20))) = Inr 0"
proof -
  let ?d1 = "[\<lparr> timestamp = 0, bestBid = Some (Fin 100), bestAsk = Some (Fin 101) \<rparr>,
       \<lparr> timestamp = 60000000, bestBid = Some (Fin (2003 / 20)), bestAsk = Some (Fin 101) \<rparr>,
       \<lparr> timestamp = 120000000, bestBid = Some (Fin 100), bestAsk = Some (Fin 101) \<rparr>]"
  let ?d2 = "[\<lparr> timestamp = 0, bestBid = Some (Fin 100), bestAsk = Some (Fin 101) \<rparr>]"
  let ?ths = "Some [Fin (1 / 10), Fin (1 / 5), Fin (3 / 10)]"
  let ?dev = "deviation_column (ratio_column (join_asof ?d1 ?d2))"
  let ?dict = "[(''max_deviation_pct'', PyFloat (Fin (3 / 20))),
         (''min_deviation_pct'', PyFloat (Fin 0)),
         (''deviation_asymmetry'', PyFloat (Fin (1 / 20))),
         (''zero_crossings'', PyInt 0),
         (''zero_crossings_per_hour'', PyFloat (Fin 0)),
         (''zero_crossings_per_minute'', PyFloat (Fin 0)),
         (''opportunity_cycles_030bp'', PyInt 1),
         (''cycles_030bp_per_hour'', PyFloat (Fin 30)),
         (''pct_time_above_030bp'', PyFloat (Fin (100 / 3))),
         (''avg_cycle_duration_030bp_sec'', PyFloat (Fin 40)),
         (''pattern_break_030bp'', PyBool False),
         (''opportunity_cycles_050bp'', PyInt 0),
         (''cycles_050bp_per_hour'', PyFloat (Fin 0)),
         (''pct_time_above_050bp'', PyFloat (Fin 0)),
         (''avg_cycle_duration_050bp_sec'', PyInt 0),
         (''pattern_break_050bp'', PyBool False),
         (''opportunity_cycles_040bp'', PyInt 0),
         (''cycles_040bp_per_hour'', PyFloat (Fin 0)),
         (''pct_time_above_040bp'', PyFloat (Fin 0)),
         (''avg_cycle_duration_040bp_sec'', PyInt 0),
         (''pattern_break_040bp'', PyBool False),
         (''data_points'', PyInt 3),
         (''duration_hours'', PyFloat (Fin (1 / 30)))]"
  have r: "analyze_pair_fast ''BTC/USDT'' ''A'' ''B'' ?d1 ?d2 ?ths (Fin (1 / 20)) = Some ?dict"
    by code_simp
  have t: "thresholds_of ?ths ! 0 = Fin (1 / 10)" "thresholds_of ?ths ! 1 = Fin (1 / 5)"
    by (simp_all add: thresholds_of_def)
  have m: "map_of ?dict ''opportunity_cycles_030bp'' = Some (PyInt 1)"
    "map_of ?dict ''opportunity_cycles_050bp'' = Some (PyInt 0)"
    by simp_all
  from threshold_field_names_fixed [of "''BTC/USDT''" "''A''" "''B''" ?d1 ?d2 ?ths "Fin (1 / 20)" ?dict] r
  obtain c0 c1 where
      "count_complete_cycles (above_column ?dev (thresholds_of ?ths ! 0))
         (neutral_column ?dev (Fin (1 / 20))) = Inr c0"
      "count_complete_cycles (above_column ?dev (thresholds_of ?ths ! 1))
         (neutral_column ?dev (Fin (1 / 20))) = Inr c1"
      "map_of ?dict ''opportunity_cycles_030bp'' = Some (PyInt (int c0))"
      "map_of ?dict ''opportunity_cycles_050bp'' = Some (PyInt (int c1))"
    by blast
  then have "count_complete_cycles (above_column ?dev (Fin (1 / 10)))
         (neutral_column ?dev (Fin (1 / 20))) = Inr 1
      \<and> count_complete_cycles (above_column ?dev (Fin (1 / 5)))
         (neutral_column ?dev (Fin (1 / 20))) = Inr 0"
    unfolding t m by simp
  with r show ?thesis by blast
qed

















lemma fmul_NaN_right [simp]: "fmul x NaN = NaN"
  by (cases x) simp_all







end
